theory Spec2Isabelle
  imports Main "HOL-Library.Word" "HOL-Library.Multiset" "HOL-Library.Char_ord"
    "HOL-Library.List_Lexorder"
begin

section \<open>Machine integers and text\<close>

text \<open>
  Go's \<open>int32\<close> is a 32-bit word read in two's complement (\<open>sint\<close>); \<open>+\<close> wraps
  around as Go's does. Go's \<open>int\<close> (64 bit) is used for node ids and loop counters
  only, far from its bounds, and is modelled as \<open>int\<close>.
\<close>

type_synonym int32 = "32 word"
type_synonym int64 = "64 word"

definition digit_char :: "nat \<Rightarrow> char" where
  "digit_char d = ''0123456789'' ! d"

fun show_nat :: "nat \<Rightarrow> string" where
  "show_nat n =
     (if n < 10 then [digit_char n] else show_nat (n div 10) @ [digit_char (n mod 10)])"

declare show_nat.simps [simp del]

text \<open>The verb \<open>%d\<close> of \<open>fmt.Sprintf\<close> and the template's printing of an integer.\<close>

definition show_int :: "int \<Rightarrow> string" where
  "show_int i = (if i < 0 then CHR ''-'' # show_nat (nat (- i)) else show_nat (nat i))"

fun is_prefix :: "string \<Rightarrow> string \<Rightarrow> bool" where
  "is_prefix [] s = True"
| "is_prefix (c # cs) [] = False"
| "is_prefix (c # cs) (d # ds) = (c = d \<and> is_prefix cs ds)"

text \<open>\<open>strings.Contains s sub\<close>.\<close>

fun strings_Contains :: "string \<Rightarrow> string \<Rightarrow> bool" where
  "strings_Contains [] sub = is_prefix sub []"
| "strings_Contains (c # cs) sub = (is_prefix sub (c # cs) \<or> strings_Contains cs sub)"

text \<open>
  \<open>math.Mod\<close> on two \<open>float64\<close> values that are integers (every \<open>int32\<close> converts to
  \<open>float64\<close> exactly, and the remainder of two such values is exact): the result has
  the sign of the dividend, and is NaN (\<open>None\<close>) when the divisor is zero.
\<close>

definition math_Mod :: "int \<Rightarrow> int \<Rightarrow> int option" where
  "math_Mod x y = (if y = 0 then None else Some (sgn x * (\<bar>x\<bar> mod \<bar>y\<bar>)))"

text \<open>The comparison \<open>f != 0\<close> of a \<open>float64\<close>: NaN differs from every number.\<close>

definition float_ne_zero :: "int option \<Rightarrow> bool" where
  "float_ne_zero f = (case f of None \<Rightarrow> True | Some r \<Rightarrow> r \<noteq> 0)"

section \<open>The NdbCluster resource (v1alpha1)\<close>

record NdbMysqldSpec =
  Mysqld_NodeCount :: int32
  RootPasswordSecretName :: string
  RootHost :: string
  MyCnf :: string

record NdbClusterSpec =
  RedundancyLevel :: int32
  NodeCount :: int32
  FreeAPISlots :: int32
  ManagementNodeConfig :: "(string \<times> string) list"
  DataNodeConfig :: "(string \<times> string) list"
  Mysqld :: "NdbMysqldSpec option"

text \<open>
  \<open>corev1.ConditionStatus\<close>, and a condition of the status. The time of the last
  transition is a number.
\<close>

datatype ConditionStatus = ConditionTrue | ConditionFalse | ConditionUnknown

record NdbClusterCondition =
  cond_Type :: string
  cond_Status :: ConditionStatus
  LastTransitionTime :: nat
  Reason :: string
  Message :: string

record NdbClusterStatus =
  ProcessedGeneration :: int64
  ReadyManagementNodes :: string
  ReadyDataNodes :: string
  ReadyMySQLServers :: string
  GeneratedRootPasswordSecretName :: string
  Conditions :: "NdbClusterCondition list"

text \<open>
  The resource. The packages \<open>v1alpha1\<close> and \<open>v1\<close> name some fields of the spec
  differently (\<open>Spec.NodeCount\<close> is \<open>Spec.DataNode.NodeCount\<close> in \<open>v1\<close>); one record
  stands for both.
\<close>

record NdbCluster =
  Name :: string
  Namespace :: string
  Generation :: int64
  Spec :: NdbClusterSpec
  Status :: NdbClusterStatus

text \<open>
  Modelled from the spec: the methods \<open>GetManagementNodeCount\<close>, \<open>GetMySQLServerNodeCount\<close>
  and \<open>GetMySQLCnf\<close> of \<open>NdbCluster\<close> and the constant \<open>constants.MaxNumberOfNodes\<close>
  are not among the source files. The spec gives the management node count as 1 when
  the redundancy level is 1 and 2 otherwise, the SQL server count and \<open>myCnf\<close> as the
  optional \<open>mysqld\<close> block's fields, and the maximum as 145.
\<close>

definition GetManagementNodeCount :: "NdbCluster \<Rightarrow> int32" where
  "GetManagementNodeCount nc = (if RedundancyLevel (Spec nc) = 1 then 1 else 2)"

definition GetMySQLServerNodeCount :: "NdbCluster \<Rightarrow> int32" where
  "GetMySQLServerNodeCount nc =
     (case Mysqld (Spec nc) of None \<Rightarrow> 0 | Some m \<Rightarrow> Mysqld_NodeCount m)"

definition GetMySQLCnf :: "NdbCluster \<Rightarrow> string" where
  "GetMySQLCnf nc = (case Mysqld (Spec nc) of None \<Rightarrow> [] | Some m \<Rightarrow> MyCnf m)"

definition MaxNumberOfNodes :: int32 where
  "MaxNumberOfNodes = 145"

section \<open>Validation of a spec and of a spec update\<close>

text \<open>
  \<open>field.Error\<close> values: \<open>field.Invalid path value detail\<close> and
  \<open>field.InternalError path err\<close>. The bad value is an \<open>int32\<close> or a string.
\<close>

datatype bad_value = IntValue int32 | StrValue string

datatype field_error =
    Invalid string bad_value string
  | InternalError string string

text \<open>
  \<open>configparser.ParseString\<close> and \<open>validation.IsDNS1123Subdomain\<close> are not among the
  source files and are parameters of the validation. A parsed configuration (a Go map
  from section names to the sections of that name) is the list of its keys, each with
  the number of its sections; a parse error is its message.
\<close>

type_synonym ConfigIni = "(string \<times> nat) list"

record validation_deps =
  ParseString :: "string \<Rightarrow> string + ConfigIni"
  IsDNS1123Subdomain :: "string \<Rightarrow> string list"

definition GetNumberOfSections :: "ConfigIni \<Rightarrow> string \<Rightarrow> nat" where
  "GetNumberOfSections ini name = (case map_of ini name of None \<Rightarrow> 0 | Some n \<Rightarrow> n)"

definition nodeCountMsg :: "int32 \<Rightarrow> string" where
  "nodeCountMsg rl =
     ''spec.nodeCount should be a multiple of the spec.redundancyLevel(='' @
       show_int (sint rl) @ '')''"

text \<open>The first check of \<open>HasValidSpec\<close>: the data-node count against the redundancy level.\<close>

definition checkNodeCount :: "NdbCluster \<Rightarrow> field_error list" where
  "checkNodeCount nc =
     (let spec = Spec nc; dataNodeCount = NodeCount spec in
      if float_ne_zero (math_Mod (sint dataNodeCount) (sint (RedundancyLevel spec)))
      then [Invalid ''spec.nodeCount'' (IntValue dataNodeCount) (nodeCountMsg (RedundancyLevel spec))]
      else [])"

text \<open>The second check: the total number of nodes, an \<open>int32\<close> sum that wraps around.\<close>

definition checkTotalNodes :: "NdbCluster \<Rightarrow> field_error list" where
  "checkTotalNodes nc =
     (let dataNodeCount = NodeCount (Spec nc);
          mysqlServerCount = GetMySQLServerNodeCount nc;
          managementNodeCount = GetManagementNodeCount nc;
          numOfFreeApiSlots = FreeAPISlots (Spec nc);
          total = managementNodeCount + dataNodeCount + mysqlServerCount + numOfFreeApiSlots in
      if MaxNumberOfNodes <s total
      then [Invalid ''Total Nodes''
              (StrValue (show_int (sint total) @ '' (= '' @ show_int (sint managementNodeCount) @
                 '' management, '' @ show_int (sint dataNodeCount) @ '' data, '' @
                 show_int (sint mysqlServerCount) @ '' mysql nodes and '' @
                 show_int (sint numOfFreeApiSlots) @ '' free API nodes)''))
              (''Total number of MySQL Cluster nodes should not exceed the allowed maximum of '' @
                 show_int (sint MaxNumberOfNodes))]
      else [])"

text \<open>The third check: the name of the root password secret.\<close>

definition checkRootPasswordSecret :: "validation_deps \<Rightarrow> NdbCluster \<Rightarrow> field_error list" where
  "checkRootPasswordSecret deps nc =
     (let rootPasswordSecret =
            (case Mysqld (Spec nc) of None \<Rightarrow> [] | Some m \<Rightarrow> RootPasswordSecretName m) in
      if rootPasswordSecret \<noteq> []
      then map (\<lambda>err. Invalid ''spec.mysqld.rootPasswordSecretName'' (StrValue rootPasswordSecret) err)
             (IsDNS1123Subdomain deps rootPasswordSecret)
      else [])"

text \<open>
  The fourth check: the additional \<open>my.cnf\<close>, parsed a second time under a \<open>[mysqld]\<close>
  header when the first parse misses a section header.
\<close>

definition checkMyCnf :: "validation_deps \<Rightarrow> NdbCluster \<Rightarrow> field_error list" where
  "checkMyCnf deps nc =
     (let myCnfString = GetMySQLCnf nc in
      if 0 < length myCnfString then
        (let first = ParseString deps myCnfString;
             retry = (case first of
                        Inl err \<Rightarrow> strings_Contains err ''Non-empty line without section''
                      | Inr ini \<Rightarrow> False);
             myCnfString' = (if retry then ''[mysqld]'' @ [CHR 0x0A] @ myCnfString else myCnfString);
             parsed = (if retry then ParseString deps myCnfString' else first) in
         case parsed of
           Inl err \<Rightarrow> [Invalid ''spec.mysqld.myCnf'' (StrValue myCnfString') err]
         | Inr myCnf \<Rightarrow>
             if 1 < length myCnf \<or> length myCnf \<noteq> GetNumberOfSections myCnf ''mysqld''
             then [Invalid ''spec.mysqld.myCnf'' (StrValue myCnfString')
                     ''spec.mysqld.myCnf can have only one mysqld section'']
             else [])
      else [])"

text \<open>
  \<open>HasValidSpec\<close>: the error list of the four checks in their order, and whether it is
  \<open>nil\<close>.
\<close>

definition HasValidSpec :: "validation_deps \<Rightarrow> NdbCluster \<Rightarrow> bool \<times> field_error list" where
  "HasValidSpec deps nc =
     (let errList = checkNodeCount nc @ checkTotalNodes nc @
                    checkRootPasswordSecret deps nc @ checkMyCnf deps nc
      in (errList = [], errList))"

definition replicaOneMsg :: string where
  "replicaOneMsg = ''operator cannot handle any spec update to a MySQL Cluster whose replica is 1''"

text \<open>\<open>IsValidSpecUpdate\<close>: \<open>nc\<close> is the existing resource, \<open>newNc\<close> the proposed one.\<close>

definition IsValidSpecUpdate ::
    "validation_deps \<Rightarrow> NdbCluster \<Rightarrow> NdbCluster \<Rightarrow> bool \<times> field_error list" where
  "IsValidSpecUpdate deps nc newNc =
     (if RedundancyLevel (Spec nc) = 1
      then (False, [InternalError ''spec'' replicaOneMsg])
      else
        (let e1 = (if NodeCount (Spec nc) \<noteq> NodeCount (Spec newNc)
                   then [Invalid ''spec.nodeCount'' (IntValue (NodeCount (Spec newNc)))
                           (if NodeCount (Spec nc) <s NodeCount (Spec newNc)
                            then ''Online add node is not supported by the operator yet''
                            else ''spec.NodeCount cannot be reduced once MySQL Cluster has been started'')]
                   else []);
             e2 = (if RedundancyLevel (Spec nc) \<noteq> RedundancyLevel (Spec newNc)
                   then [Invalid ''spec.redundancyLevel'' (IntValue (RedundancyLevel (Spec newNc)))
                           ''spec.redundancyLevel cannot be updated once MySQL Cluster has been started'']
                   else []);
             e3 = (case (Mysqld (Spec nc), Mysqld (Spec newNc)) of
                     (Some m, Some m') \<Rightarrow>
                       if RootHost m \<noteq> RootHost m'
                       then [Invalid ''spec.mysqld.rootHost'' (StrValue (RootHost m'))
                               ''spec.mysqld.rootHost cannot be updated once MySQL Cluster has been started'']
                       else []
                   | _ \<Rightarrow> []);
             e4 = (case HasValidSpec deps newNc of (isValid, specErrList) \<Rightarrow>
                     if \<not> isValid then specErrList else []);
             errList = e1 @ e2 @ e3 @ e4
         in (errList = [], errList)))"

section \<open>The configuration generator\<close>

record ConfigSummary =
  MySQLClusterConfigVersion :: int32
  MySQLServerConfigVersion :: int32
  NumOfMySQLServers :: int32
  NdbClusterGeneration :: int64

text \<open>
  The template function \<open>GetConfigVersion\<close> of \<open>GetConfigString\<close>: an \<open>int32\<close>, so the
  increment wraps around.
\<close>

definition GetConfigVersion :: "ConfigSummary option \<Rightarrow> int32" where
  "GetConfigVersion oldConfigSummary =
     (case oldConfigSummary of
        None \<Rightarrow> 1
      | Some old \<Rightarrow> MySQLClusterConfigVersion old + 1)"

text \<open>
  Modelled from the spec: the package \<open>constants\<close> and the helpers
  \<open>getNumOfSectionsRequiredForMySQLServers\<close> and \<open>getNumOfFreeAPISections\<close> are not among
  the source files. The spec names the roles mgmd and ndbmtd, the section names mysqld
  and api, the first API node id 129, and gives one \<open>[mysqld]\<close> section per SQL server
  and one \<open>[api]\<close> section per free API slot.
\<close>

definition NdbNodeTypeMgmd :: string where "NdbNodeTypeMgmd = ''mgmd''"
definition NdbNodeTypeNdbmtd :: string where "NdbNodeTypeNdbmtd = ''ndbmtd''"
definition NdbNodeTypeMySQLD :: string where "NdbNodeTypeMySQLD = ''mysqld''"
definition NdbNodeTypeAPI :: string where "NdbNodeTypeAPI = ''api''"

definition NdbNodeTypeAPIStartNodeId :: int where
  "NdbNodeTypeAPIStartNodeId = 129"

definition getNumOfSectionsRequiredForMySQLServers :: "NdbCluster \<Rightarrow> int32" where
  "getNumOfSectionsRequiredForMySQLServers ndb = GetMySQLServerNodeCount ndb"

definition getNumOfFreeAPISections :: "NdbCluster \<Rightarrow> int32" where
  "getNumOfFreeAPISections ndb = FreeAPISlots (Spec ndb)"

text \<open>
  The method \<open>GetServiceName\<close> of \<open>NdbCluster\<close> and the constant \<open>constants.DataDir\<close> are
  not among the source files either, and the spec does not give them: they are
  parameters of the generator.
\<close>

record config_deps =
  GetServiceName :: "NdbCluster \<Rightarrow> string \<Rightarrow> string"
  DataDir :: string

text \<open>
  The two counters that \<open>GetNodeIds\<close> captures and advances: the first free node id of
  the management and data nodes, and of the API nodes.
\<close>

record node_counters =
  ndbdMgmdStartNodeId :: int
  apiStartNodeId :: int

text \<open>
  \<open>GetNodeIds\<close>: the node ids of a node type, taken from the counter of that type, which
  moves past them. \<open>make([]int, n)\<close> panics on a negative length; the template engine
  turns a panic of a template function into an error of \<open>Execute\<close>.
\<close>

definition GetNodeIds ::
    "NdbCluster \<Rightarrow> string \<Rightarrow> node_counters \<Rightarrow> string + (int list \<times> node_counters)" where
  "GetNodeIds ndb nodeType st =
     (if nodeType = NdbNodeTypeMgmd \<or> nodeType = NdbNodeTypeNdbmtd then
        (let numberOfNodes = (if nodeType = NdbNodeTypeMgmd then GetManagementNodeCount ndb
                              else NodeCount (Spec ndb)) in
         if sint numberOfNodes < 0 then Inl ''makeslice: len out of range''
         else Inr (map (\<lambda>i. ndbdMgmdStartNodeId st + int i) [0..<nat (sint numberOfNodes)],
                   st\<lparr>ndbdMgmdStartNodeId := ndbdMgmdStartNodeId st + sint numberOfNodes\<rparr>))
      else if nodeType = NdbNodeTypeMySQLD \<or> nodeType = NdbNodeTypeAPI then
        (let numberOfNodes = (if nodeType = NdbNodeTypeMySQLD
                              then getNumOfSectionsRequiredForMySQLServers ndb
                              else getNumOfFreeAPISections ndb) in
         if sint numberOfNodes < 0 then Inl ''makeslice: len out of range''
         else Inr (map (\<lambda>i. apiStartNodeId st + int i) [0..<nat (sint numberOfNodes)],
                   st\<lparr>apiStartNodeId := apiStartNodeId st + sint numberOfNodes\<rparr>))
      else Inl ''Unrecognised node type'')"

definition GetDataDir :: "config_deps \<Rightarrow> string" where
  "GetDataDir deps = DataDir deps @ ''/data''"

text \<open>
  \<open>GetHostnameSuffix\<close>. The answer of \<open>net.LookupCNAME\<close> is an input: \<open>Inl\<close> an error,
  \<open>Inr\<close> the canonical name. The slice expression \<open>k8sCname[18 : len(k8sCname)-1]\<close> panics
  when the name has fewer than 19 bytes.
\<close>

definition GetHostnameSuffix :: "(string \<Rightarrow> string + string) \<Rightarrow> NdbCluster \<Rightarrow> string + string" where
  "GetHostnameSuffix lookupCNAME ndb =
     (case lookupCNAME ''kubernetes.default.svc'' of
        Inl err \<Rightarrow> Inr (Namespace ndb)
      | Inr k8sCname \<Rightarrow>
          if length k8sCname < length ''kubernetes.default'' + 1
          then Inl ''slice bounds out of range''
          else Inr (Namespace ndb @
                 drop (length ''kubernetes.default'') (take (length k8sCname - 1) k8sCname)))"

definition nl :: string where
  "nl = [CHR 0x0A]"

text \<open>
  A \<open>range\<close> over a map visits the keys in sorted order. The map is given as the list
  of its entries, each key once.
\<close>

definition renderConfigMap :: "(string \<times> string) list \<Rightarrow> string" where
  "renderConfigMap m = concat (map (\<lambda>(k, v). nl @ k @ ''='' @ v) (sort_key fst m))"

definition renderNodeSection ::
    "config_deps \<Rightarrow> NdbCluster \<Rightarrow> string \<Rightarrow> string \<Rightarrow> string \<Rightarrow> bool \<Rightarrow> nat \<times> int \<Rightarrow> string" where
  "renderNodeSection deps ndb hostnameSuffix sectionName nodeType withDataDir e =
     (case e of (idx, nodeId) \<Rightarrow>
        ''['' @ sectionName @ '']'' @ nl @
        ''NodeId='' @ show_int nodeId @ nl @
        ''Hostname='' @ Name ndb @ ''-'' @ nodeType @ ''-'' @ show_int (int idx) @ ''.'' @
           GetServiceName deps ndb nodeType @ ''.'' @ hostnameSuffix @ nl @
        (if withDataDir then ''DataDir='' @ GetDataDir deps @ nl else []) @ nl)"

definition renderApiSection :: "int \<Rightarrow> string" where
  "renderApiSection nodeId = ''[api]'' @ nl @ ''NodeId='' @ show_int nodeId @ nl @ nl"

definition renderHeader :: "NdbCluster \<Rightarrow> ConfigSummary option \<Rightarrow> string" where
  "renderHeader ndb oldConfigSummary =
     ''# Auto generated config.ini - DO NOT EDIT'' @ nl @ nl @
     ''[system]'' @ nl @
     ''ConfigGenerationNumber='' @ show_int (sint (GetConfigVersion oldConfigSummary)) @ nl @
     ''Name='' @ Name ndb @ nl @ nl @
     (if ManagementNodeConfig (Spec ndb) \<noteq> [] then ''[ndb_mgmd default]'' else []) @
     renderConfigMap (ManagementNodeConfig (Spec ndb)) @ nl @ nl @
     ''[ndbd default]'' @ nl @
     ''NoOfReplicas='' @ show_int (sint (RedundancyLevel (Spec ndb))) @ nl @
     ''# Use a fixed ServerPort for all data nodes'' @ nl @
     ''ServerPort=1186'' @
     renderConfigMap (DataNodeConfig (Spec ndb)) @ nl @ nl @
     ''[tcp default]'' @ nl @
     ''AllowUnresolvedHostnames=1'' @ nl @ nl"

text \<open>
  \<open>GetConfigString\<close>: the template \<open>mgmtConfigTmpl\<close> executed on the resource. The actions
  run in the template's order, so the counters pass from one \<open>GetNodeIds\<close> to the next;
  an error of \<open>Execute\<close> discards the text written so far.
\<close>

definition GetConfigString ::
    "config_deps \<Rightarrow> (string \<Rightarrow> string + string) \<Rightarrow> NdbCluster \<Rightarrow> ConfigSummary option
       \<Rightarrow> string + string" where
  "GetConfigString deps lookupCNAME ndb oldConfigSummary =
     (let st0 = \<lparr>ndbdMgmdStartNodeId = 1, apiStartNodeId = NdbNodeTypeAPIStartNodeId\<rparr> in
      case GetHostnameSuffix lookupCNAME ndb of
        Inl err \<Rightarrow> Inl err
      | Inr hostnameSuffix \<Rightarrow>
      (case GetNodeIds ndb NdbNodeTypeMgmd st0 of
        Inl err \<Rightarrow> Inl err
      | Inr (mgmdIds, st1) \<Rightarrow>
      (case GetNodeIds ndb NdbNodeTypeNdbmtd st1 of
        Inl err \<Rightarrow> Inl err
      | Inr (ndbdIds, st2) \<Rightarrow>
      (case GetNodeIds ndb NdbNodeTypeMySQLD st2 of
        Inl err \<Rightarrow> Inl err
      | Inr (mysqldIds, st3) \<Rightarrow>
      (case GetNodeIds ndb NdbNodeTypeAPI st3 of
        Inl err \<Rightarrow> Inl err
      | Inr (apiIds, st4) \<Rightarrow>
          Inr (renderHeader ndb oldConfigSummary @
               concat (map (renderNodeSection deps ndb hostnameSuffix ''ndb_mgmd'' NdbNodeTypeMgmd True)
                         (enumerate 0 mgmdIds)) @
               concat (map (renderNodeSection deps ndb hostnameSuffix ''ndbd'' NdbNodeTypeNdbmtd True)
                         (enumerate 0 ndbdIds)) @
               ''# MySQLD sections to be used exclusively by MySQL Servers'' @ nl @
               concat (map (renderNodeSection deps ndb hostnameSuffix ''mysqld'' NdbNodeTypeMySQLD False)
                         (enumerate 0 mysqldIds)) @
               ''# API sections to be used by generic NDBAPI applications'' @ nl @
               concat (map renderApiSection apiIds)))))))"

section \<open>The status of the resource\<close>

text \<open>
  A StatefulSet, as far as the controllers read it: its name and namespace, its
  annotations (a map, as the list of its entries), the replicas asked for and the
  replica counts of its status.
\<close>

record StatefulSet =
  sfset_Name :: string
  sfset_Namespace :: string
  Annotations :: "(string \<times> string) list"
  Spec_Replicas :: int32
  Status_Replicas :: int32
  Status_ReadyReplicas :: int32

text \<open>The fields of \<open>SyncContext\<close> (packages \<open>v1\<close> and \<open>v1alpha1\<close>) that the steps below read.\<close>

record SyncContext =
  sc_ndb :: NdbCluster
  mgmdNodeSfset :: "StatefulSet option"
  dataNodeSfSet :: "StatefulSet option"
  mysqldSfset :: "StatefulSet option"
  configSummary :: ConfigSummary
  syncSuccess :: bool

text \<open>
  Modelled from the spec: the condition type and the reasons are constants of the API
  packages, which are not among the source files; the spec names them.
\<close>

definition NdbClusterUpToDate :: string where
  "NdbClusterUpToDate = ''UpToDate''"

definition NdbClusterUptoDateReasonSyncSuccess :: string where
  "NdbClusterUptoDateReasonSyncSuccess = ''SyncSuccess''"

definition NdbClusterUptoDateReasonISR :: string where
  "NdbClusterUptoDateReasonISR = ''ISR''"

definition NdbClusterUptoDateReasonSpecUpdateInProgress :: string where
  "NdbClusterUptoDateReasonSpecUpdateInProgress = ''SpecUpdateInProgress''"

definition NdbClusterUptoDateReasonError :: string where
  "NdbClusterUptoDateReasonError = ''Error''"

text \<open>
  The result of an expression that may panic: \<open>Inl\<close> the panic, \<open>Inr\<close> the value.
  \<open>Conditions[0]\<close> panics on an empty slice.
\<close>

definition index0 :: "'a list \<Rightarrow> string + 'a" where
  "index0 xs = (case xs of [] \<Rightarrow> Inl ''index out of range [0] with length 0'' | x # _ \<Rightarrow> Inr x)"

text \<open>
  \<open>statusEqual\<close> of package \<open>v1alpha1\<close>. The operator \<open>&&\<close> evaluates its right operand only
  when the left one is true, and \<open>==\<close> evaluates its left operand first.
\<close>

definition statusEqual_v1alpha1 :: "NdbClusterStatus \<Rightarrow> NdbClusterStatus \<Rightarrow> string + bool" where
  "statusEqual_v1alpha1 oldStatus newStatus =
     (if ProcessedGeneration oldStatus = ProcessedGeneration newStatus \<and>
         ReadyManagementNodes oldStatus = ReadyManagementNodes newStatus \<and>
         ReadyDataNodes oldStatus = ReadyDataNodes newStatus \<and>
         ReadyMySQLServers oldStatus = ReadyMySQLServers newStatus \<and>
         GeneratedRootPasswordSecretName oldStatus = GeneratedRootPasswordSecretName newStatus
      then (case index0 (Conditions oldStatus) of
              Inl p \<Rightarrow> Inl p
            | Inr co \<Rightarrow>
                (case index0 (Conditions newStatus) of
                   Inl p \<Rightarrow> Inl p
                 | Inr cn \<Rightarrow> Inr (cond_Status co = cond_Status cn)))
      else Inr False)"

text \<open>\<open>statusEqual\<close> of package \<open>v1\<close>, which also compares the reason and the message.\<close>

definition statusEqual_v1 :: "NdbClusterStatus \<Rightarrow> NdbClusterStatus \<Rightarrow> string + bool" where
  "statusEqual_v1 oldStatus newStatus =
     (if ProcessedGeneration oldStatus = ProcessedGeneration newStatus \<and>
         ReadyManagementNodes oldStatus = ReadyManagementNodes newStatus \<and>
         ReadyDataNodes oldStatus = ReadyDataNodes newStatus \<and>
         ReadyMySQLServers oldStatus = ReadyMySQLServers newStatus \<and>
         GeneratedRootPasswordSecretName oldStatus = GeneratedRootPasswordSecretName newStatus
      then (case index0 (Conditions oldStatus) of
              Inl p \<Rightarrow> Inl p
            | Inr co \<Rightarrow>
                (case index0 (Conditions newStatus) of
                   Inl p \<Rightarrow> Inl p
                 | Inr cn \<Rightarrow>
                     if cond_Status co = cond_Status cn
                     then (case index0 (Conditions oldStatus) of
                             Inl p \<Rightarrow> Inl p
                           | Inr co' \<Rightarrow>
                               (case index0 (Conditions newStatus) of
                                  Inl p \<Rightarrow> Inl p
                                | Inr cn' \<Rightarrow>
                                    Inr (Reason co' = Reason cn' \<and> Message co' = Message cn')))
                     else Inr False))
      else Inr False)"

text \<open>
  \<open>resources.GetMySQLRootPasswordSecretName\<close> is not among the source files: the name of
  the secret and whether it is a custom one are a parameter of the projector.
\<close>

record status_deps =
  GetMySQLRootPasswordSecretName :: "NdbCluster \<Rightarrow> string \<times> bool"

definition readyString :: "int32 \<Rightarrow> int32 \<Rightarrow> string" where
  "readyString ready wanted = ''Ready:'' @ show_int (sint ready) @ ''/'' @ show_int (sint wanted)"

definition readyReplicasOf :: "StatefulSet option \<Rightarrow> int32" where
  "readyReplicasOf sfset = (case sfset of None \<Rightarrow> 0 | Some s \<Rightarrow> Status_ReadyReplicas s)"

text \<open>The part of \<open>calculateNdbClusterStatus\<close> that both packages share: the readiness fields.\<close>

definition readinessStatus :: "status_deps \<Rightarrow> SyncContext \<Rightarrow> NdbClusterStatus" where
  "readinessStatus deps sc =
     (let nc = sc_ndb sc;
          numOfMySQLServersRequired = GetMySQLServerNodeCount nc in
      \<lparr>ProcessedGeneration = 0,
       ReadyManagementNodes = readyString (readyReplicasOf (mgmdNodeSfset sc)) (GetManagementNodeCount nc),
       ReadyDataNodes = readyString (readyReplicasOf (dataNodeSfSet sc)) (NodeCount (Spec nc)),
       ReadyMySQLServers = readyString (readyReplicasOf (mysqldSfset sc)) numOfMySQLServersRequired,
       GeneratedRootPasswordSecretName =
         (if mysqldSfset sc \<noteq> None \<and> 0 <s numOfMySQLServersRequired
          then (case GetMySQLRootPasswordSecretName deps nc of
                  (secretName, customSecret) \<Rightarrow> if \<not> customSecret then secretName else [])
          else []),
       Conditions = []\<rparr>)"

definition syncSuccessMessage :: "int64 \<Rightarrow> string" where
  "syncSuccessMessage g =
     ''NdbCluster Spec generation '' @ show_int (sint g) @
     '' was successfully applied to the MySQL Cluster''"

definition specUpdateMessage :: "int64 \<Rightarrow> string" where
  "specUpdateMessage g =
     ''NdbCluster spec generation '' @ show_int (sint g) @
     '' is being applied to the MySQL Cluster''"

text \<open>\<open>strings.Join\<close>.\<close>

fun strings_Join :: "string list \<Rightarrow> string \<Rightarrow> string" where
  "strings_Join [] sep = []"
| "strings_Join [x] sep = x"
| "strings_Join (x # y # ys) sep = x @ sep @ strings_Join (y # ys) sep"

text \<open>
  \<open>calculateNdbClusterStatus\<close> of package \<open>v1alpha1\<close>; \<open>now\<close> is the value of \<open>metav1.Now()\<close>.
\<close>

definition calculateNdbClusterStatus_v1alpha1 ::
    "status_deps \<Rightarrow> nat \<Rightarrow> SyncContext \<Rightarrow> NdbClusterStatus" where
  "calculateNdbClusterStatus_v1alpha1 deps now sc =
     (let nc = sc_ndb sc;
          status = readinessStatus deps sc;
          upToDateCondition =
            \<lparr>cond_Type = NdbClusterUpToDate, cond_Status = ConditionUnknown,
             LastTransitionTime = now, Reason = [], Message = []\<rparr> in
      if syncSuccess sc then
        status\<lparr>ProcessedGeneration := Generation nc,
               Conditions := Conditions status @
                 [upToDateCondition\<lparr>cond_Status := ConditionTrue,
                    Reason := NdbClusterUptoDateReasonSyncSuccess,
                    Message := syncSuccessMessage (Generation nc)\<rparr>]\<rparr>
      else
        status\<lparr>ProcessedGeneration := Generation nc - 1,
               Conditions := Conditions status @
                 [if Generation nc = 1
                  then upToDateCondition\<lparr>cond_Status := ConditionFalse,
                         Reason := NdbClusterUptoDateReasonISR,
                         Message := ''MySQL Cluster is starting up''\<rparr>
                  else upToDateCondition\<lparr>cond_Status := ConditionFalse,
                         Reason := NdbClusterUptoDateReasonSpecUpdateInProgress,
                         Message := specUpdateMessage (Generation nc)\<rparr>]\<rparr>)"

text \<open>
  \<open>calculateNdbClusterStatus\<close> of package \<open>v1\<close>. \<open>retrievePodErrors\<close> is not among the
  source files: its result \<open>podErrors\<close> is an input, \<open>None\<close> the \<open>nil\<close> slice.
\<close>

definition calculateNdbClusterStatus_v1 ::
    "status_deps \<Rightarrow> nat \<Rightarrow> string list option \<Rightarrow> SyncContext \<Rightarrow> NdbClusterStatus" where
  "calculateNdbClusterStatus_v1 deps now podErrors sc =
     (let nc = sc_ndb sc;
          status = readinessStatus deps sc;
          upToDateCondition =
            \<lparr>cond_Type = NdbClusterUpToDate, cond_Status = ConditionUnknown,
             LastTransitionTime = now, Reason = [], Message = []\<rparr> in
      if syncSuccess sc then
        status\<lparr>ProcessedGeneration := Generation nc,
               Conditions := Conditions status @
                 [upToDateCondition\<lparr>cond_Status := ConditionTrue,
                    Reason := NdbClusterUptoDateReasonSyncSuccess,
                    Message := syncSuccessMessage (Generation nc)\<rparr>]\<rparr>
      else
        status\<lparr>ProcessedGeneration := ProcessedGeneration (Status nc),
               Conditions := Conditions status @
                 [case podErrors of
                    Some errMsgs \<Rightarrow>
                      upToDateCondition\<lparr>cond_Status := ConditionFalse,
                        Reason := NdbClusterUptoDateReasonError,
                        Message := strings_Join errMsgs nl\<rparr>
                  | None \<Rightarrow>
                      if Generation nc = 1
                      then upToDateCondition\<lparr>cond_Status := ConditionFalse,
                             Reason := NdbClusterUptoDateReasonISR,
                             Message := ''MySQL Cluster is starting up''\<rparr>
                      else upToDateCondition\<lparr>cond_Status := ConditionFalse,
                             Reason := NdbClusterUptoDateReasonSpecUpdateInProgress,
                             Message := specUpdateMessage (Generation nc)\<rparr>]\<rparr>)"

section \<open>The verdict of a reconciliation step\<close>

text \<open>
  Modelled from the spec: the type \<open>syncResult\<close> and its four constructors are not among
  the source files; the spec gives the four verdicts continue, finish, requeue after a
  number of seconds, and error.
\<close>

datatype syncResult =
    continueProcessing
  | finishProcessing
  | requeueInSeconds int
  | errorWhileProcessing string

text \<open>A call that returns, or panics with a message.\<close>

datatype 'a outcome = Returns 'a | Panics string

section \<open>The rollout of a configuration version\<close>

text \<open>
  The management servers, as the rollout meets them: whether
  \<open>connectToManagementServer\<close> reaches the server with a node id (\<open>None\<close>) or fails with
  an error, the answer of \<open>GetConfigVersion()\<close> on the client of a management server,
  the answer of \<open>GetConfigVersion(nodeID)\<close> for a data node, and the answer of
  \<open>StopNodes\<close>, an error or none. The package \<open>mgmapi\<close> is not among the source files.
\<close>

record mgm_world =
  connect_error :: "int \<Rightarrow> string option"
  mgmd_version :: "int \<Rightarrow> string + 32 word"
  node_version :: "int \<Rightarrow> string + 32 word"
  stop_error :: "int list \<Rightarrow> string option"

text \<open>
  The calls that a step makes on the management servers, in their order, and the
  messages it logs at error level. Messages logged at info level are left out.
\<close>

datatype mgm_event =
    Connect int
  | GetMgmdConfigVersion int
  | GetNodeConfigVersion int
  | StopNodes "int list"
  | Disconnect int
  | LogError string

fun stopCalls :: "mgm_event list \<Rightarrow> int list list" where
  "stopCalls [] = []"
| "stopCalls (StopNodes ns # evs) = ns # stopCalls evs"
| "stopCalls (ev # evs) = stopCalls evs"

fun connectCalls :: "mgm_event list \<Rightarrow> int list" where
  "connectCalls [] = []"
| "connectCalls (Connect n # evs) = n # connectCalls evs"
| "connectCalls (ev # evs) = connectCalls evs"

text \<open>
  The loop of \<open>ensureManagementServerConfigVersion\<close> from \<open>nodeID\<close> on, for \<open>mgmdCount\<close>
  management servers. An error of \<open>StopNodes\<close> is logged and nothing else.
\<close>

function mgmdLoop :: "mgm_world \<Rightarrow> 32 word \<Rightarrow> int \<Rightarrow> int \<Rightarrow> syncResult \<times> mgm_event list" where
  "mgmdLoop w wantedGeneration mgmdCount nodeID =
     (if nodeID \<le> mgmdCount then
        (case connect_error w nodeID of
           Some err \<Rightarrow> (errorWhileProcessing err, [Connect nodeID])
         | None \<Rightarrow>
             (case mgmd_version w nodeID of
                Inl err \<Rightarrow>
                  (errorWhileProcessing err,
                   [Connect nodeID, GetMgmdConfigVersion nodeID,
                    LogError (''GetConfigVersion failed :'' @ err)])
              | Inr version \<Rightarrow>
                  if version = wantedGeneration then
                    (case mgmdLoop w wantedGeneration mgmdCount (nodeID + 1) of
                       (r, evs) \<Rightarrow>
                         (r, [Connect nodeID, GetMgmdConfigVersion nodeID, Disconnect nodeID] @ evs))
                  else
                    (requeueInSeconds 5,
                     [Connect nodeID, GetMgmdConfigVersion nodeID, StopNodes [nodeID]] @
                     (case stop_error w [nodeID] of
                        Some err \<Rightarrow> [LogError (''Error stopping management node '' @ err)]
                      | None \<Rightarrow> []) @
                     [Disconnect nodeID])))
      else (continueProcessing, []))"
  by pat_completeness auto
termination
  by (relation "measure (\<lambda>(w, wanted, mgmdCount, nodeID). nat (mgmdCount + 1 - nodeID))") auto

declare mgmdLoop.simps [simp del]

text \<open>
  \<open>ensureManagementServerConfigVersion\<close>: the management servers have the node ids from 1
  to \<open>GetManagementNodeCount\<close>.
\<close>

definition ensureManagementServerConfigVersion ::
    "mgm_world \<Rightarrow> 32 word \<Rightarrow> NdbCluster \<Rightarrow> syncResult \<times> mgm_event list" where
  "ensureManagementServerConfigVersion w wantedGeneration nc =
     mgmdLoop w wantedGeneration (sint (GetManagementNodeCount nc)) 1"

text \<open>
  The inner loop of \<open>ensureDataNodeConfigVersion\<close> that picks the node at index \<open>i\<close> of
  every node group; the index expression panics on a group with no such node.
\<close>

fun collectCandidates :: "int list list \<Rightarrow> nat \<Rightarrow> string + int list" where
  "collectCandidates [] i = Inr []"
| "collectCandidates (nodesInNodegroup # rest) i =
     (if i < length nodesInNodegroup
      then (case collectCandidates rest i of
              Inl p \<Rightarrow> Inl p
            | Inr candidateNodeIds \<Rightarrow> Inr (nodesInNodegroup ! i # candidateNodeIds))
      else Inl ''index out of range'')"

text \<open>
  The inner loop that reads the config version of every candidate: the candidates with
  another version than the wanted one, or the first error of a read.
\<close>

fun checkCandidates ::
    "mgm_world \<Rightarrow> 32 word \<Rightarrow> int list \<Rightarrow> (string + int list) \<times> mgm_event list" where
  "checkCandidates w wantedGeneration [] = (Inr [], [])"
| "checkCandidates w wantedGeneration (nodeID # rest) =
     (case node_version w nodeID of
        Inl err \<Rightarrow> (Inl err, [GetNodeConfigVersion nodeID])
      | Inr nodeConfigGeneration \<Rightarrow>
          (case checkCandidates w wantedGeneration rest of
             (Inl err, evs) \<Rightarrow> (Inl err, GetNodeConfigVersion nodeID # evs)
           | (Inr nodesWithOldConfig, evs) \<Rightarrow>
               (Inr (if wantedGeneration \<noteq> nodeConfigGeneration
                     then nodeID # nodesWithOldConfig else nodesWithOldConfig),
                GetNodeConfigVersion nodeID # evs)))"

text \<open>The outer loop of \<open>ensureDataNodeConfigVersion\<close> from pass \<open>i\<close> on.\<close>

function passLoop ::
    "mgm_world \<Rightarrow> 32 word \<Rightarrow> nat \<Rightarrow> int list list \<Rightarrow> nat
       \<Rightarrow> syncResult outcome \<times> mgm_event list" where
  "passLoop w wantedGeneration redundancyLevel groups i =
     (if i < redundancyLevel then
        (case collectCandidates groups i of
           Inl p \<Rightarrow> (Panics p, [])
         | Inr candidateNodeIds \<Rightarrow>
             (case checkCandidates w wantedGeneration candidateNodeIds of
                (Inl err, evs) \<Rightarrow> (Returns (errorWhileProcessing err), evs)
              | (Inr nodesWithOldConfig, evs) \<Rightarrow>
                  if 0 < length nodesWithOldConfig then
                    (case stop_error w nodesWithOldConfig of
                       Some err \<Rightarrow>
                         (Returns (errorWhileProcessing err), evs @ [StopNodes nodesWithOldConfig])
                     | None \<Rightarrow>
                         (Returns (requeueInSeconds 5), evs @ [StopNodes nodesWithOldConfig]))
                  else
                    (case passLoop w wantedGeneration redundancyLevel groups (i + 1) of
                       (r, evs') \<Rightarrow> (r, evs @ evs'))))
      else (Returns continueProcessing, []))"
  by pat_completeness auto
termination
  by (relation "measure (\<lambda>(w, wanted, rl, groups, i). rl - i)") auto

declare passLoop.simps [simp del]

text \<open>
  \<open>ensureDataNodeConfigVersion\<close>. The node groups are the result of
  \<open>GetNodesGroupedByNodegroup\<close> (not among the source files), \<open>None\<close> when it is \<open>nil\<close>.
  The client is the one of the management server with node id 1; the deferred
  \<open>Disconnect\<close> runs on every way out, a panic too.
\<close>

definition ensureDataNodeConfigVersion ::
    "mgm_world \<Rightarrow> 32 word \<Rightarrow> nat \<Rightarrow> int list list option
       \<Rightarrow> syncResult outcome \<times> mgm_event list" where
  "ensureDataNodeConfigVersion w wantedGeneration redundancyLevel nodesGroupedByNodegroups =
     (case connect_error w 1 of
        Some err \<Rightarrow> (Returns (errorWhileProcessing err), [Connect 1])
      | None \<Rightarrow>
          (case nodesGroupedByNodegroups of
             None \<Rightarrow>
               (Returns (errorWhileProcessing
                  ''internal error: could not extract nodes and node groups from cluster status''),
                [Connect 1, Disconnect 1])
           | Some groups \<Rightarrow>
               (case passLoop w wantedGeneration redundancyLevel groups 0 of
                  (r, evs) \<Rightarrow> (r, [Connect 1] @ evs @ [Disconnect 1]))))"

text \<open>
  The words of the rollout rule: the candidates of pass \<open>i\<close> are the nodes at index \<open>i\<close>
  of the node groups, and the ones to stop are the candidates whose running config
  version is not the wanted one.
\<close>

definition ithOfEachGroup :: "int list list \<Rightarrow> nat \<Rightarrow> int list" where
  "ithOfEachGroup groups i = map (\<lambda>g. g ! i) groups"

definition withOldConfig :: "mgm_world \<Rightarrow> 32 word \<Rightarrow> int list \<Rightarrow> int list" where
  "withOldConfig w wantedGeneration ns = filter (\<lambda>n. node_version w n \<noteq> Inr wantedGeneration) ns"

text \<open>
  The calls of a visit to a management server that has the wanted version, and of a
  visit to one that has another version.
\<close>

definition visitCurrent :: "int \<Rightarrow> mgm_event list" where
  "visitCurrent n = [Connect n, GetMgmdConfigVersion n, Disconnect n]"

definition visitOutdated :: "mgm_world \<Rightarrow> int \<Rightarrow> mgm_event list" where
  "visitOutdated w n =
     [Connect n, GetMgmdConfigVersion n, StopNodes [n]] @
     (case stop_error w [n] of
        Some err \<Rightarrow> [LogError (''Error stopping management node '' @ err)]
      | None \<Rightarrow> []) @
     [Disconnect n]"

section \<open>Example inputs\<close>

definition ex_deps :: validation_deps where
  "ex_deps = \<lparr>ParseString = (\<lambda>s. Inr [(''mysqld'', 1)]), IsDNS1123Subdomain = (\<lambda>s. [])\<rparr>"

definition ex_spec :: "int32 \<Rightarrow> int32 \<Rightarrow> NdbClusterSpec" where
  "ex_spec rl n =
     \<lparr>RedundancyLevel = rl, NodeCount = n, FreeAPISlots = 2,
      ManagementNodeConfig = [], DataNodeConfig = [], Mysqld = None\<rparr>"

definition ex_status :: "int64 \<Rightarrow> NdbClusterCondition list \<Rightarrow> NdbClusterStatus" where
  "ex_status g cs =
     \<lparr>ProcessedGeneration = g, ReadyManagementNodes = ''Ready:2/2'',
      ReadyDataNodes = ''Ready:2/2'', ReadyMySQLServers = ''Ready:0/0'',
      GeneratedRootPasswordSecretName = [], Conditions = cs\<rparr>"

definition ex_cluster :: "int32 \<Rightarrow> int32 \<Rightarrow> NdbCluster" where
  "ex_cluster rl n =
     \<lparr>Name = ''example-ndb'', Namespace = ''default'', Generation = 1, Spec = ex_spec rl n,
      Status = ex_status 0 []\<rparr>"

definition ex_config_deps :: config_deps where
  "ex_config_deps = \<lparr>GetServiceName = (\<lambda>nc t. Name nc @ ''-'' @ t), DataDir = ''/var/lib/ndb''\<rparr>"

definition lookup_fails :: "string \<Rightarrow> string + string" where
  "lookup_fails name = Inl ''no such host''"

definition lookup_cluster_local :: "string \<Rightarrow> string + string" where
  "lookup_cluster_local name = Inr ''kubernetes.default.svc.cluster.local.''"

definition ex_summary :: "int32 \<Rightarrow> ConfigSummary" where
  "ex_summary v =
     \<lparr>MySQLClusterConfigVersion = v, MySQLServerConfigVersion = 1,
      NumOfMySQLServers = 2, NdbClusterGeneration = 1\<rparr>"

definition lookup_times_out :: "string \<Rightarrow> string + string" where
  "lookup_times_out name = Inl ''i/o timeout''"

definition ex_condition :: NdbClusterCondition where
  "ex_condition =
     \<lparr>cond_Type = NdbClusterUpToDate, cond_Status = ConditionTrue, LastTransitionTime = 0,
      Reason = NdbClusterUptoDateReasonSyncSuccess, Message = syncSuccessMessage 1\<rparr>"

definition ex_status_deps :: status_deps where
  "ex_status_deps = \<lparr>GetMySQLRootPasswordSecretName = (\<lambda>nc. (Name nc @ ''-mysqld-root-password'', False))\<rparr>"

definition ex_sc :: "int64 \<Rightarrow> bool \<Rightarrow> SyncContext" where
  "ex_sc g ok =
     \<lparr>sc_ndb = (ex_cluster 2 2)\<lparr>Generation := g\<rparr>, mgmdNodeSfset = None, dataNodeSfSet = None,
      mysqldSfset = None, configSummary = ex_summary 1, syncSuccess = ok\<rparr>"

definition ex_pod_errors :: "string list" where
  "ex_pod_errors = [''pod default/example-ndb-ndbmtd-0 : ImagePullBackOff'']"

definition falseCondition :: "nat \<Rightarrow> string \<Rightarrow> string \<Rightarrow> NdbClusterCondition" where
  "falseCondition now reason msg =
     \<lparr>cond_Type = NdbClusterUpToDate, cond_Status = ConditionFalse, LastTransitionTime = now,
      Reason = reason, Message = msg\<rparr>"

definition ex_world :: "string option \<Rightarrow> mgm_world" where
  "ex_world stop =
     \<lparr>connect_error = (\<lambda>n. None),
      mgmd_version = (\<lambda>n. if n = 1 then Inr 5 else Inr 4),
      node_version = (\<lambda>n. if n = 3 then Inr 4 else Inr 5),
      stop_error = (\<lambda>ns. stop)\<rparr>"

section \<open>Validation: theorems\<close>

lemma math_Mod_zero_iff:
  "float_ne_zero (math_Mod x y) \<longleftrightarrow> (y = 0 \<or> \<not> y dvd x)"
proof (cases "y = 0")
  case True
  then show ?thesis by (simp add: math_Mod_def float_ne_zero_def)
next
  case False
  have "\<bar>x\<bar> mod \<bar>y\<bar> = 0 \<longleftrightarrow> y dvd x"
    by (simp add: mod_eq_0_iff_dvd)
  moreover have "sgn x * (\<bar>x\<bar> mod \<bar>y\<bar>) = 0 \<longleftrightarrow> \<bar>x\<bar> mod \<bar>y\<bar> = 0"
    by (cases "x = 0") (auto simp: sgn_if)
  ultimately show ?thesis using False
    by (simp add: math_Mod_def float_ne_zero_def)
qed

lemma checkNodeCount_iff:
  "checkNodeCount nc \<noteq> [] \<longleftrightarrow>
     (RedundancyLevel (Spec nc) = 0 \<or>
      \<not> sint (RedundancyLevel (Spec nc)) dvd sint (NodeCount (Spec nc)))"
  by (simp add: checkNodeCount_def Let_def math_Mod_zero_iff signed_eq_0_iff)

text \<open>
  C6 (as amended). \<open>HasValidSpec\<close> reports the error on \<open>spec.nodeCount\<close>, and so declares
  the spec invalid, whenever the data-node count is not an integer multiple of the
  redundancy level, and also whenever the redundancy level is zero (the remainder is
  then NaN). That is all the check looks at: when the redundancy level is not zero
  and divides the count, the check adds no error, whatever the sign of the count.
\<close>

theorem HasValidSpec_nodeCount_multiple:
  "(RedundancyLevel (Spec nc) = 0 \<or>
      \<not> sint (RedundancyLevel (Spec nc)) dvd sint (NodeCount (Spec nc))
    \<longrightarrow> \<not> fst (HasValidSpec deps nc) \<and>
        hd (snd (HasValidSpec deps nc)) =
          Invalid ''spec.nodeCount'' (IntValue (NodeCount (Spec nc)))
            (nodeCountMsg (RedundancyLevel (Spec nc)))) \<and>
   (RedundancyLevel (Spec nc) \<noteq> 0 \<and>
      sint (RedundancyLevel (Spec nc)) dvd sint (NodeCount (Spec nc))
    \<longrightarrow> checkNodeCount nc = [])"
proof -
  have "checkNodeCount nc \<noteq> [] \<Longrightarrow>
      checkNodeCount nc =
        [Invalid ''spec.nodeCount'' (IntValue (NodeCount (Spec nc)))
           (nodeCountMsg (RedundancyLevel (Spec nc)))]"
    by (simp add: checkNodeCount_def Let_def split: if_splits)
  then show ?thesis
    using checkNodeCount_iff [of nc]
    by (auto simp: HasValidSpec_def Let_def)
qed

theorem HasValidSpec_nodeCount_multiple_witness:
  "\<not> sint (RedundancyLevel (Spec (ex_cluster 2 3))) dvd sint (NodeCount (Spec (ex_cluster 2 3))) \<and>
   \<not> fst (HasValidSpec ex_deps (ex_cluster 2 3)) \<and>
   hd (snd (HasValidSpec ex_deps (ex_cluster 2 3))) =
     Invalid ''spec.nodeCount'' (IntValue 3) (nodeCountMsg 2) \<and>
   RedundancyLevel (Spec (ex_cluster 2 4)) \<noteq> 0 \<and>
   sint (RedundancyLevel (Spec (ex_cluster 2 4))) dvd sint (NodeCount (Spec (ex_cluster 2 4))) \<and>
   checkNodeCount (ex_cluster 2 4) = []"
proof -
  have a: "\<not> sint (RedundancyLevel (Spec (ex_cluster 2 3))) dvd sint (NodeCount (Spec (ex_cluster 2 3)))"
    by (simp add: ex_cluster_def ex_spec_def)
  have b: "RedundancyLevel (Spec (ex_cluster 2 4)) \<noteq> 0 \<and>
      sint (RedundancyLevel (Spec (ex_cluster 2 4))) dvd sint (NodeCount (Spec (ex_cluster 2 4)))"
    by (simp add: ex_cluster_def ex_spec_def)
  have c: "NodeCount (Spec (ex_cluster 2 3)) = 3" "RedundancyLevel (Spec (ex_cluster 2 3)) = 2"
    by (simp_all add: ex_cluster_def ex_spec_def)
  show ?thesis
    using a b c HasValidSpec_nodeCount_multiple [of "ex_cluster 2 3" ex_deps]
      HasValidSpec_nodeCount_multiple [of "ex_cluster 2 4" ex_deps]
    by simp
qed

text \<open>
  C6 (as stated) fails: a spec with zero data nodes and redundancy level 2 passes
  \<open>HasValidSpec\<close> with an empty error list, since 0 is a multiple of 2 and nothing
  checks that the count is positive.
\<close>

theorem HasValidSpec_zero_nodes_counterexample:
  "NodeCount (Spec (ex_cluster 2 0)) = 0 \<and> HasValidSpec ex_deps (ex_cluster 2 0) = (True, [])"
  by (simp add: HasValidSpec_def checkNodeCount_def checkTotalNodes_def
      checkRootPasswordSecret_def checkMyCnf_def GetMySQLCnf_def GetMySQLServerNodeCount_def
      GetManagementNodeCount_def MaxNumberOfNodes_def math_Mod_def float_ne_zero_def
      ex_cluster_def ex_spec_def ex_deps_def Let_def)

text \<open>
  C7. When the existing resource has redundancy level 1, \<open>IsValidSpecUpdate\<close> answers
  invalid with the one internal error, whatever the new spec is.
\<close>

theorem IsValidSpecUpdate_replica_one:
  "RedundancyLevel (Spec nc) = 1 \<Longrightarrow>
     IsValidSpecUpdate deps nc newNc = (False, [InternalError ''spec'' replicaOneMsg]) \<and>
     snd (IsValidSpecUpdate deps nc newNc) \<noteq> []"
  by (simp add: IsValidSpecUpdate_def)

theorem IsValidSpecUpdate_replica_one_witness:
  "RedundancyLevel (Spec (ex_cluster 1 1)) = 1 \<and>
   IsValidSpecUpdate ex_deps (ex_cluster 1 1) (ex_cluster 1 1) =
     (False, [InternalError ''spec'' replicaOneMsg]) \<and>
   snd (IsValidSpecUpdate ex_deps (ex_cluster 1 1) (ex_cluster 1 1)) \<noteq> []"
proof -
  have h: "RedundancyLevel (Spec (ex_cluster 1 1)) = 1"
    by (simp add: ex_cluster_def ex_spec_def)
  show ?thesis
    using h IsValidSpecUpdate_replica_one [OF h, of ex_deps "ex_cluster 1 1"] by simp
qed

section \<open>The configuration generator: theorems\<close>

lemma int32_succ_sint:
  fixes v :: int32
  assumes "v \<noteq> 2147483647"
  shows "sint (v + 1) = sint v + 1"
proof -
  have lo: "- (2 ^ 31) \<le> sint v" using sint_ge [of v] by simp
  have hi: "sint v < 2 ^ 31" using sint_lt [of v] by simp
  have "sint v \<noteq> 2147483647"
  proof
    assume "sint v = 2147483647"
    then have "sint v = sint (2147483647 :: int32)" by simp
    then have "v = 2147483647" by (rule signed_word_eqI)
    with assms show False by simp
  qed
  with hi have hi': "sint v + 1 < 2 ^ 31" by simp
  from lo have lo': "- (2 ^ 31) \<le> sint v + 1" by simp
  have "sint (v + 1) = signed_take_bit 31 (sint v + 1)"
    by (simp add: sint_word_ariths)
  also have "\<dots> = sint v + 1"
    using lo' hi' by (rule signed_take_bit_int_eq_self)
  finally show ?thesis .
qed

lemma GetConfigString_header:
  "GetConfigString deps lookupCNAME ndb prev = Inr text \<Longrightarrow>
     \<exists>rest. text = renderHeader ndb prev @ rest"
  by (auto simp: GetConfigString_def Let_def split: sum.splits prod.splits)

lemma renderHeader_generation:
  "\<exists>rest. renderHeader ndb prev =
     ''# Auto generated config.ini - DO NOT EDIT'' @ nl @ nl @ ''[system]'' @ nl @
     ''ConfigGenerationNumber='' @ show_int (sint (GetConfigVersion prev)) @ nl @ rest"
  unfolding renderHeader_def by (metis append.assoc)

text \<open>
  C3 (as amended). The generation that \<open>GetConfigString\<close> writes after
  \<open>ConfigGenerationNumber=\<close> is \<open>GetConfigVersion\<close> of the previous summary: 1 when there
  is none, and the previous generation plus 1 in 32-bit two's complement arithmetic
  otherwise. The new generation is the successor of, and strictly greater than, the
  previous one whenever the previous one is not the greatest \<open>int32\<close>.
\<close>

theorem GetConfigVersion_rule:
  "GetConfigVersion None = 1 \<and>
   GetConfigVersion (Some old) = MySQLClusterConfigVersion old + 1 \<and>
   (MySQLClusterConfigVersion old \<noteq> 2147483647 \<longrightarrow>
      sint (GetConfigVersion (Some old)) = sint (MySQLClusterConfigVersion old) + 1 \<and>
      MySQLClusterConfigVersion old <s GetConfigVersion (Some old)) \<and>
   (\<forall>text. GetConfigString deps lookupCNAME ndb prev = Inr text \<longrightarrow>
      (\<exists>rest. text =
         ''# Auto generated config.ini - DO NOT EDIT'' @ nl @ nl @ ''[system]'' @ nl @
         ''ConfigGenerationNumber='' @ show_int (sint (GetConfigVersion prev)) @ nl @ rest))"
proof -
  have a: "GetConfigVersion None = 1"
    by (simp add: GetConfigVersion_def)
  have b: "GetConfigVersion (Some old) = MySQLClusterConfigVersion old + 1"
    by (simp add: GetConfigVersion_def)
  have c: "MySQLClusterConfigVersion old \<noteq> 2147483647 \<longrightarrow>
      sint (GetConfigVersion (Some old)) = sint (MySQLClusterConfigVersion old) + 1 \<and>
      MySQLClusterConfigVersion old <s GetConfigVersion (Some old)"
    by (simp add: b word_sless_alt int32_succ_sint)
  have d: "\<exists>rest. out =
         ''# Auto generated config.ini - DO NOT EDIT'' @ nl @ nl @ ''[system]'' @ nl @
         ''ConfigGenerationNumber='' @ show_int (sint (GetConfigVersion prev)) @ nl @ rest"
    if "GetConfigString deps lookupCNAME ndb prev = Inr out" for out
  proof -
    from GetConfigString_header [OF that] obtain r1 where r1: "out = renderHeader ndb prev @ r1" ..
    from renderHeader_generation [of ndb prev] obtain r2 where
      r2: "renderHeader ndb prev =
        ''# Auto generated config.ini - DO NOT EDIT'' @ nl @ nl @ ''[system]'' @ nl @
        ''ConfigGenerationNumber='' @ show_int (sint (GetConfigVersion prev)) @ nl @ r2" ..
    show ?thesis unfolding r1 by (subst r2) simp
  qed
  from a b c d show ?thesis by blast
qed

lemma ex_render_ok:
  "\<not> isl (GetConfigString ex_config_deps lookup_fails (ex_cluster 2 2) (Some (ex_summary 1)))"
  by code_simp

theorem GetConfigVersion_rule_witness:
  "MySQLClusterConfigVersion (ex_summary 1) \<noteq> 2147483647 \<and>
   GetConfigVersion (Some (ex_summary 1)) = 2 \<and>
   MySQLClusterConfigVersion (ex_summary 1) <s GetConfigVersion (Some (ex_summary 1)) \<and>
   (\<exists>text rest.
      GetConfigString ex_config_deps lookup_fails (ex_cluster 2 2) (Some (ex_summary 1)) = Inr text \<and>
      text = ''# Auto generated config.ini - DO NOT EDIT'' @ nl @ nl @ ''[system]'' @ nl @
         ''ConfigGenerationNumber=2'' @ nl @ rest)"
proof -
  have h: "MySQLClusterConfigVersion (ex_summary 1) \<noteq> 2147483647"
    by (simp add: ex_summary_def)
  have v: "MySQLClusterConfigVersion (ex_summary 1) + 1 = 2"
    by (simp add: ex_summary_def)
  have s: "show_int (sint (2 :: int32)) = ''2''"
    by code_simp
  obtain out where t:
    "GetConfigString ex_config_deps lookup_fails (ex_cluster 2 2) (Some (ex_summary 1)) = Inr out"
    using ex_render_ok by (metis sum.collapse(2))
  show ?thesis
    using h v s t
      GetConfigVersion_rule [of "ex_summary 1" ex_config_deps lookup_fails "ex_cluster 2 2"
        "Some (ex_summary 1)"]
    by auto
qed

text \<open>
  C3 (as stated) fails at the greatest \<open>int32\<close>: the increment wraps around, and the
  new generation is below the previous one.
\<close>

theorem GetConfigVersion_overflow_counterexample:
  "GetConfigVersion (Some (ex_summary 2147483647)) <s MySQLClusterConfigVersion (ex_summary 2147483647) \<and>
   sint (MySQLClusterConfigVersion (ex_summary 2147483647)) = 2147483647 \<and>
   sint (GetConfigVersion (Some (ex_summary 2147483647))) = - 2147483648"
  by (simp add: GetConfigVersion_def ex_summary_def)

lemma filter_key_distinct:
  "distinct (map fst xs) \<Longrightarrow> k \<in> set xs \<Longrightarrow> filter (\<lambda>x. fst k = fst x) xs = [k]"
proof (induction xs)
  case Nil
  then show ?case by simp
next
  case (Cons a xs)
  show ?case
  proof (cases "k = a")
    case True
    have "filter (\<lambda>x. fst a = fst x) xs = []"
      using Cons.prems(1) by (auto simp: filter_empty_conv image_iff)
    with True show ?thesis by simp
  next
    case False
    with Cons.prems have k: "k \<in> set xs" by simp
    then have "fst k \<noteq> fst a" using Cons.prems(1) by (auto simp: image_iff)
    with Cons.IH k Cons.prems(1) show ?thesis by simp
  qed
qed

lemma sort_key_fst_perm:
  fixes xs ys :: "('k::linorder \<times> 'v) list"
  assumes d: "distinct (map fst xs)" and m: "mset xs = mset ys"
  shows "sort_key fst xs = sort_key fst ys"
proof (rule properties_for_sort_key)
  show "mset (sort_key fst ys) = mset xs" using m by simp
next
  show "sorted (map fst (sort_key fst ys))" by simp
next
  fix k assume "k \<in> set (sort_key fst ys)"
  then have kys: "k \<in> set ys" by simp
  then have kxs: "k \<in> set xs" using m by (metis set_mset_mset)
  have "mset (map fst xs) = mset (map fst ys)" using m by (metis mset_map)
  then have dy: "distinct (map fst ys)" using d by (metis mset_eq_imp_distinct_iff)
  have "filter (\<lambda>x. fst k = fst x) (sort_key fst ys) = sort_key fst (filter (\<lambda>x. fst k = fst x) ys)"
    by (simp add: filter_sort)
  also have "\<dots> = [k]" using filter_key_distinct [OF dy kys] by simp
  also have "\<dots> = filter (\<lambda>x. fst k = fst x) xs" using filter_key_distinct [OF d kxs] by simp
  finally show "filter (\<lambda>x. fst k = fst x) (sort_key fst ys) = filter (\<lambda>x. fst k = fst x) xs" .
qed

lemma GetConfigString_suffix:
  "GetHostnameSuffix l1 ndb = GetHostnameSuffix l2 ndb \<Longrightarrow>
     GetConfigString deps l1 ndb prev = GetConfigString deps l2 ndb prev"
  by (simp add: GetConfigString_def)

lemma GetHostnameSuffix_fallback:
  "l ''kubernetes.default.svc'' = Inl e \<Longrightarrow> GetHostnameSuffix l ndb = Inr (Namespace ndb)"
  by (simp add: GetHostnameSuffix_def)

text \<open>
  C5 (as amended). The text that \<open>GetConfigString\<close> renders for a resource and a
  previous summary depends on the answer of the CNAME lookup only through the hostname
  suffix: two renderings are identical whenever the two lookups give the same suffix,
  and in particular whenever both lookups fail, the suffix then being the bare
  namespace. The block rendered for a configuration map does not depend on the order
  in which the entries of the map are held.
\<close>

theorem GetConfigString_deterministic:
  "(GetHostnameSuffix l1 ndb = GetHostnameSuffix l2 ndb \<longrightarrow>
      GetConfigString deps l1 ndb prev = GetConfigString deps l2 ndb prev) \<and>
   (l1 ''kubernetes.default.svc'' = Inl e1 \<and> l2 ''kubernetes.default.svc'' = Inl e2 \<longrightarrow>
      GetHostnameSuffix l1 ndb = Inr (Namespace ndb) \<and>
      GetConfigString deps l1 ndb prev = GetConfigString deps l2 ndb prev) \<and>
   (distinct (map fst m) \<and> mset m = mset m' \<longrightarrow> renderConfigMap m = renderConfigMap m')"
proof -
  have a: "GetHostnameSuffix l1 ndb = GetHostnameSuffix l2 ndb \<longrightarrow>
      GetConfigString deps l1 ndb prev = GetConfigString deps l2 ndb prev"
    using GetConfigString_suffix by blast
  have b: "l1 ''kubernetes.default.svc'' = Inl e1 \<and> l2 ''kubernetes.default.svc'' = Inl e2 \<longrightarrow>
      GetHostnameSuffix l1 ndb = Inr (Namespace ndb) \<and>
      GetConfigString deps l1 ndb prev = GetConfigString deps l2 ndb prev"
    by (simp add: GetConfigString_def GetHostnameSuffix_fallback)
  have c: "distinct (map fst m) \<and> mset m = mset m' \<longrightarrow> renderConfigMap m = renderConfigMap m'"
    using sort_key_fst_perm [of m m'] by (simp add: renderConfigMap_def)
  from a b c show ?thesis by blast
qed

theorem GetConfigString_deterministic_witness:
  "GetHostnameSuffix lookup_fails (ex_cluster 2 2) = GetHostnameSuffix lookup_times_out (ex_cluster 2 2) \<and>
   lookup_fails ''kubernetes.default.svc'' = Inl ''no such host'' \<and>
   lookup_times_out ''kubernetes.default.svc'' = Inl ''i/o timeout'' \<and>
   GetConfigString ex_config_deps lookup_fails (ex_cluster 2 2) None =
     GetConfigString ex_config_deps lookup_times_out (ex_cluster 2 2) None \<and>
   distinct (map fst [(''b'', ''2''), (''a'', ''1'')]) \<and>
   mset [(''b'', ''2''), (''a'', ''1'')] = mset [(''a'', ''1''), (''b'', ''2'')] \<and>
   renderConfigMap [(''b'', ''2''), (''a'', ''1'')] = renderConfigMap [(''a'', ''1''), (''b'', ''2'')]"
proof -
  have h1: "lookup_fails ''kubernetes.default.svc'' = Inl ''no such host''"
    by (simp add: lookup_fails_def)
  have h2: "lookup_times_out ''kubernetes.default.svc'' = Inl ''i/o timeout''"
    by (simp add: lookup_times_out_def)
  have h3: "GetHostnameSuffix lookup_fails (ex_cluster 2 2) =
      GetHostnameSuffix lookup_times_out (ex_cluster 2 2)"
    by (simp add: GetHostnameSuffix_def lookup_fails_def lookup_times_out_def)
  have h4: "distinct (map fst [(''b'', ''2''), (''a'', ''1'')])"
    by simp
  have h5: "mset [(''b'', ''2''), (''a'', ''1'')] = mset [(''a'', ''1''), (''b'', ''2'')]"
    by (simp add: add.commute)
  show ?thesis
    using h1 h2 h3 h4 h5
      GetConfigString_deterministic [of lookup_fails "ex_cluster 2 2" lookup_times_out
        ex_config_deps None "''no such host''" "''i/o timeout''"
        "[(''b'', ''2''), (''a'', ''1'')]" "[(''a'', ''1''), (''b'', ''2'')]"]
    by blast
qed

text \<open>
  C5 (as stated) fails: for the same resource and the same previous summary, a
  rendering whose lookup fails and one whose lookup answers
  \<open>kubernetes.default.svc.cluster.local.\<close> give different texts.
\<close>

theorem GetConfigString_lookup_counterexample:
  "GetConfigString ex_config_deps lookup_fails (ex_cluster 2 2) None \<noteq>
   GetConfigString ex_config_deps lookup_cluster_local (ex_cluster 2 2) None"
  by code_simp

section \<open>The status of the resource: theorems\<close>

text \<open>
  C9 (as amended). \<open>statusEqual\<close>, in both packages, reads \<open>Conditions[0]\<close> of its two
  arguments only when the five fields compared before are equal; it then panics exactly
  when one of the two \<open>Conditions\<close> slices is empty. When one of the five fields differs
  it returns false without reading \<open>Conditions\<close>.
\<close>

theorem statusEqual_panics_iff:
  "(isl (statusEqual_v1alpha1 old new) \<longleftrightarrow>
      (ProcessedGeneration old = ProcessedGeneration new \<and>
       ReadyManagementNodes old = ReadyManagementNodes new \<and>
       ReadyDataNodes old = ReadyDataNodes new \<and>
       ReadyMySQLServers old = ReadyMySQLServers new \<and>
       GeneratedRootPasswordSecretName old = GeneratedRootPasswordSecretName new) \<and>
      (Conditions old = [] \<or> Conditions new = [])) \<and>
   (isl (statusEqual_v1 old new) \<longleftrightarrow>
      (ProcessedGeneration old = ProcessedGeneration new \<and>
       ReadyManagementNodes old = ReadyManagementNodes new \<and>
       ReadyDataNodes old = ReadyDataNodes new \<and>
       ReadyMySQLServers old = ReadyMySQLServers new \<and>
       GeneratedRootPasswordSecretName old = GeneratedRootPasswordSecretName new) \<and>
      (Conditions old = [] \<or> Conditions new = [])) \<and>
   (\<not> (ProcessedGeneration old = ProcessedGeneration new \<and>
       ReadyManagementNodes old = ReadyManagementNodes new \<and>
       ReadyDataNodes old = ReadyDataNodes new \<and>
       ReadyMySQLServers old = ReadyMySQLServers new \<and>
       GeneratedRootPasswordSecretName old = GeneratedRootPasswordSecretName new) \<longrightarrow>
      statusEqual_v1alpha1 old new = Inr False \<and> statusEqual_v1 old new = Inr False)"
proof -
  have a: "isl (statusEqual_v1alpha1 old new) \<longleftrightarrow>
      (ProcessedGeneration old = ProcessedGeneration new \<and>
       ReadyManagementNodes old = ReadyManagementNodes new \<and>
       ReadyDataNodes old = ReadyDataNodes new \<and>
       ReadyMySQLServers old = ReadyMySQLServers new \<and>
       GeneratedRootPasswordSecretName old = GeneratedRootPasswordSecretName new) \<and>
      (Conditions old = [] \<or> Conditions new = [])"
    by (cases "Conditions old"; cases "Conditions new")
      (simp_all add: statusEqual_v1alpha1_def index0_def)
  have b: "isl (statusEqual_v1 old new) \<longleftrightarrow>
      (ProcessedGeneration old = ProcessedGeneration new \<and>
       ReadyManagementNodes old = ReadyManagementNodes new \<and>
       ReadyDataNodes old = ReadyDataNodes new \<and>
       ReadyMySQLServers old = ReadyMySQLServers new \<and>
       GeneratedRootPasswordSecretName old = GeneratedRootPasswordSecretName new) \<and>
      (Conditions old = [] \<or> Conditions new = [])"
    by (cases "Conditions old"; cases "Conditions new")
      (simp_all add: statusEqual_v1_def index0_def)
  have c: "\<not> (ProcessedGeneration old = ProcessedGeneration new \<and>
       ReadyManagementNodes old = ReadyManagementNodes new \<and>
       ReadyDataNodes old = ReadyDataNodes new \<and>
       ReadyMySQLServers old = ReadyMySQLServers new \<and>
       GeneratedRootPasswordSecretName old = GeneratedRootPasswordSecretName new) \<longrightarrow>
      statusEqual_v1alpha1 old new = Inr False \<and> statusEqual_v1 old new = Inr False"
    by (simp add: statusEqual_v1alpha1_def statusEqual_v1_def)
  from a b c show ?thesis by blast
qed

theorem statusEqual_panics_iff_witness:
  "isl (statusEqual_v1alpha1 (ex_status 1 []) (ex_status 1 [ex_condition])) \<and>
   isl (statusEqual_v1 (ex_status 1 [ex_condition]) (ex_status 1 [])) \<and>
   \<not> isl (statusEqual_v1 (ex_status 1 [ex_condition]) (ex_status 1 [ex_condition])) \<and>
   ReadyDataNodes (ex_status 1 []) = ReadyDataNodes (ex_status 3 [ex_condition]) \<and>
   ProcessedGeneration (ex_status 1 []) \<noteq> ProcessedGeneration (ex_status 3 [ex_condition]) \<and>
   statusEqual_v1alpha1 (ex_status 1 []) (ex_status 3 [ex_condition]) = Inr False \<and>
   statusEqual_v1 (ex_status 1 []) (ex_status 3 [ex_condition]) = Inr False"
  using statusEqual_panics_iff [of "ex_status 1 []" "ex_status 1 [ex_condition]"]
    statusEqual_panics_iff [of "ex_status 1 [ex_condition]" "ex_status 1 []"]
    statusEqual_panics_iff [of "ex_status 1 [ex_condition]" "ex_status 1 [ex_condition]"]
    statusEqual_panics_iff [of "ex_status 1 []" "ex_status 3 [ex_condition]"]
  by (simp add: ex_status_def)

text \<open>
  C9 (as stated) fails: two statuses whose \<open>Conditions\<close> are both empty and whose
  processed generations differ are compared without a panic, and the answer is false.
\<close>

theorem statusEqual_empty_conditions_counterexample:
  "Conditions (ex_status 1 []) = [] \<and> Conditions (ex_status 2 []) = [] \<and>
   statusEqual_v1alpha1 (ex_status 1 []) (ex_status 2 []) = Inr False \<and>
   statusEqual_v1 (ex_status 1 []) (ex_status 2 []) = Inr False"
  by (simp add: statusEqual_v1alpha1_def statusEqual_v1_def ex_status_def)

text \<open>
  C8 (as amended). In both packages \<open>calculateNdbClusterStatus\<close> sets the one condition
  to (True, SyncSuccess) and the processed generation to the generation of the resource
  when the sync succeeded, and the condition is True only then. When the sync has not
  succeeded, package \<open>v1\<close> first asks for the errors of the pods, and with any the
  condition is (False, Error) with the errors as message; without pod errors, and
  always in package \<open>v1alpha1\<close>, the condition is (False, ISR) with the message
  "MySQL Cluster is starting up" when the generation is 1, and
  (False, SpecUpdateInProgress) for every other generation. The processed generation
  is then the generation minus 1 in \<open>v1alpha1\<close> and the one of the previous status in
  \<open>v1\<close>.
\<close>

theorem calculateNdbClusterStatus_condition:
  "(syncSuccess sc \<longrightarrow>
      ProcessedGeneration (calculateNdbClusterStatus_v1alpha1 deps now sc) = Generation (sc_ndb sc) \<and>
      ProcessedGeneration (calculateNdbClusterStatus_v1 deps now podErrors sc) = Generation (sc_ndb sc) \<and>
      Conditions (calculateNdbClusterStatus_v1alpha1 deps now sc) =
        [\<lparr>cond_Type = NdbClusterUpToDate, cond_Status = ConditionTrue, LastTransitionTime = now,
          Reason = NdbClusterUptoDateReasonSyncSuccess,
          Message = syncSuccessMessage (Generation (sc_ndb sc))\<rparr>] \<and>
      Conditions (calculateNdbClusterStatus_v1 deps now podErrors sc) =
        Conditions (calculateNdbClusterStatus_v1alpha1 deps now sc)) \<and>
   (cond_Status (hd (Conditions (calculateNdbClusterStatus_v1alpha1 deps now sc))) = ConditionTrue
      \<longleftrightarrow> syncSuccess sc) \<and>
   (cond_Status (hd (Conditions (calculateNdbClusterStatus_v1 deps now podErrors sc))) = ConditionTrue
      \<longleftrightarrow> syncSuccess sc) \<and>
   (\<not> syncSuccess sc \<longrightarrow>
      ProcessedGeneration (calculateNdbClusterStatus_v1alpha1 deps now sc) = Generation (sc_ndb sc) - 1 \<and>
      ProcessedGeneration (calculateNdbClusterStatus_v1 deps now podErrors sc) =
        ProcessedGeneration (Status (sc_ndb sc)) \<and>
      (Generation (sc_ndb sc) = 1 \<longrightarrow>
         Conditions (calculateNdbClusterStatus_v1alpha1 deps now sc) =
           [falseCondition now NdbClusterUptoDateReasonISR ''MySQL Cluster is starting up'']) \<and>
      (Generation (sc_ndb sc) \<noteq> 1 \<longrightarrow>
         Conditions (calculateNdbClusterStatus_v1alpha1 deps now sc) =
           [falseCondition now NdbClusterUptoDateReasonSpecUpdateInProgress
              (specUpdateMessage (Generation (sc_ndb sc)))]) \<and>
      (podErrors = None \<longrightarrow>
         Conditions (calculateNdbClusterStatus_v1 deps now podErrors sc) =
           Conditions (calculateNdbClusterStatus_v1alpha1 deps now sc)) \<and>
      (\<forall>errMsgs. podErrors = Some errMsgs \<longrightarrow>
         Conditions (calculateNdbClusterStatus_v1 deps now podErrors sc) =
           [falseCondition now NdbClusterUptoDateReasonError (strings_Join errMsgs nl)]))"
proof (cases "syncSuccess sc")
  case True
  then show ?thesis
    by (simp add: calculateNdbClusterStatus_v1alpha1_def calculateNdbClusterStatus_v1_def
        readinessStatus_def Let_def)
next
  case False
  then show ?thesis
    by (cases podErrors)
      (simp_all add: calculateNdbClusterStatus_v1alpha1_def calculateNdbClusterStatus_v1_def
        readinessStatus_def falseCondition_def Let_def)
qed

theorem calculateNdbClusterStatus_condition_witness:
  "syncSuccess (ex_sc 3 True) \<and>
   ProcessedGeneration (calculateNdbClusterStatus_v1 ex_status_deps 7 None (ex_sc 3 True)) = 3 \<and>
   Conditions (calculateNdbClusterStatus_v1alpha1 ex_status_deps 7 (ex_sc 3 True)) =
     [\<lparr>cond_Type = NdbClusterUpToDate, cond_Status = ConditionTrue, LastTransitionTime = 7,
       Reason = NdbClusterUptoDateReasonSyncSuccess, Message = syncSuccessMessage 3\<rparr>] \<and>
   \<not> syncSuccess (ex_sc 1 False) \<and> Generation (sc_ndb (ex_sc 1 False)) = 1 \<and>
   Conditions (calculateNdbClusterStatus_v1 ex_status_deps 7 None (ex_sc 1 False)) =
     [falseCondition 7 NdbClusterUptoDateReasonISR ''MySQL Cluster is starting up''] \<and>
   \<not> syncSuccess (ex_sc 2 False) \<and> Generation (sc_ndb (ex_sc 2 False)) \<noteq> 1 \<and>
   Conditions (calculateNdbClusterStatus_v1alpha1 ex_status_deps 7 (ex_sc 2 False)) =
     [falseCondition 7 NdbClusterUptoDateReasonSpecUpdateInProgress (specUpdateMessage 2)] \<and>
   ProcessedGeneration (calculateNdbClusterStatus_v1alpha1 ex_status_deps 7 (ex_sc 2 False)) = 1 \<and>
   Conditions (calculateNdbClusterStatus_v1 ex_status_deps 7 (Some ex_pod_errors) (ex_sc 2 False)) =
     [falseCondition 7 NdbClusterUptoDateReasonError (strings_Join ex_pod_errors nl)]"
proof -
  have s: "syncSuccess (ex_sc 3 True)" "\<not> syncSuccess (ex_sc 1 False)" "\<not> syncSuccess (ex_sc 2 False)"
    by (simp_all add: ex_sc_def)
  have g: "Generation (sc_ndb (ex_sc 3 True)) = 3" "Generation (sc_ndb (ex_sc 1 False)) = 1"
    "Generation (sc_ndb (ex_sc 2 False)) = 2"
    by (simp_all add: ex_sc_def)
  show ?thesis
    using s g
      calculateNdbClusterStatus_condition [of "ex_sc 3 True" ex_status_deps 7 None]
      calculateNdbClusterStatus_condition [of "ex_sc 1 False" ex_status_deps 7 None]
      calculateNdbClusterStatus_condition [of "ex_sc 2 False" ex_status_deps 7 None]
      calculateNdbClusterStatus_condition [of "ex_sc 2 False" ex_status_deps 7 "Some ex_pod_errors"]
    by simp
qed

text \<open>
  C8 (as stated) fails in package \<open>v1\<close>: with a failing pod, a sync that has not
  succeeded at generation 1 gives the reason Error, not ISR.
\<close>

theorem calculateNdbClusterStatus_pod_errors_counterexample:
  "\<not> syncSuccess (ex_sc 1 False) \<and> Generation (sc_ndb (ex_sc 1 False)) = 1 \<and>
   map Reason (Conditions (calculateNdbClusterStatus_v1 ex_status_deps 7 (Some ex_pod_errors)
     (ex_sc 1 False))) = [NdbClusterUptoDateReasonError] \<and>
   NdbClusterUptoDateReasonError \<noteq> NdbClusterUptoDateReasonISR"
  by (simp add: calculateNdbClusterStatus_v1_def readinessStatus_def Let_def ex_sc_def
      NdbClusterUptoDateReasonError_def NdbClusterUptoDateReasonISR_def)

section \<open>The rollout of a configuration version: theorems\<close>

lemma stopCalls_append: "stopCalls (xs @ ys) = stopCalls xs @ stopCalls ys"
  by (induction xs rule: stopCalls.induct) simp_all

lemma connectCalls_append: "connectCalls (xs @ ys) = connectCalls xs @ connectCalls ys"
  by (induction xs rule: connectCalls.induct) simp_all

lemma stopCalls_visitOutdated: "stopCalls (visitOutdated w n) = [[n]]"
  by (simp add: visitOutdated_def split: option.split)

lemma connectCalls_visitOutdated: "connectCalls (visitOutdated w n) = [n]"
  by (simp add: visitOutdated_def split: option.split)

lemma mgmdLoop_done: "mgmdCount < n \<Longrightarrow> mgmdLoop w wanted mgmdCount n = (continueProcessing, [])"
  by (subst mgmdLoop.simps) simp

lemma mgmdLoop_outdated:
  assumes "n \<le> mgmdCount" "connect_error w n = None" "mgmd_version w n = Inr v" "v \<noteq> wanted"
  shows "mgmdLoop w wanted mgmdCount n = (requeueInSeconds 5, visitOutdated w n)"
  using assms by (subst mgmdLoop.simps) (simp add: visitOutdated_def)

lemma mgmdLoop_current:
  assumes "n \<le> mgmdCount" "connect_error w n = None" "mgmd_version w n = Inr wanted"
  shows "mgmdLoop w wanted mgmdCount n =
    (fst (mgmdLoop w wanted mgmdCount (n + 1)),
     visitCurrent n @ snd (mgmdLoop w wanted mgmdCount (n + 1)))"
  using assms by (subst mgmdLoop.simps) (simp add: visitCurrent_def split: prod.split)

lemma mgmdLoop_current_prefix:
  assumes "\<forall>j. n \<le> j \<and> j < k \<longrightarrow> connect_error w j = None \<and> mgmd_version w j = Inr wanted"
    and "n \<le> k" "k \<le> mgmdCount + 1"
  shows "mgmdLoop w wanted mgmdCount n =
    (fst (mgmdLoop w wanted mgmdCount k),
     concat (map visitCurrent [n..k - 1]) @ snd (mgmdLoop w wanted mgmdCount k))"
  using assms
proof (induction "nat (k - n)" arbitrary: n)
  case 0
  then have "n = k" by simp
  then show ?case by simp
next
  case (Suc d)
  then have lt: "n < k" by linarith
  with Suc.prems have cur: "connect_error w n = None" "mgmd_version w n = Inr wanted"
    by auto
  have le: "n \<le> mgmdCount" using lt Suc.prems by linarith
  have d: "d = nat (k - (n + 1))" using Suc.hyps(2) by linarith
  have rest: "\<forall>j. n + 1 \<le> j \<and> j < k \<longrightarrow> connect_error w j = None \<and> mgmd_version w j = Inr wanted"
    using Suc.prems(1) by auto
  have ih: "mgmdLoop w wanted mgmdCount (n + 1) =
    (fst (mgmdLoop w wanted mgmdCount k),
     concat (map visitCurrent [n + 1..k - 1]) @ snd (mgmdLoop w wanted mgmdCount k))"
    using Suc.hyps(1) [OF d rest] lt Suc.prems(3) by simp
  have up: "[n..k - 1] = n # [n + 1..k - 1]"
    using lt by (simp add: upto_rec1)
  show ?case
    by (subst mgmdLoop_current [OF le cur]) (simp add: ih up)
qed

lemma mgmdLoop_stops:
  "length (stopCalls (snd (mgmdLoop w wanted mgmdCount n))) \<le> 1 \<and>
   (\<forall>ns \<in> set (stopCalls (snd (mgmdLoop w wanted mgmdCount n))).
      fst (mgmdLoop w wanted mgmdCount n) = requeueInSeconds 5 \<and>
      (\<exists>k. n \<le> k \<and> k \<le> mgmdCount \<and> ns = [k] \<and> mgmd_version w k \<noteq> Inr wanted))"
proof (induction w wanted mgmdCount n rule: mgmdLoop.induct)
  case (1 w wanted mgmdCount n)
  show ?case
  proof (cases "n \<le> mgmdCount")
    case False
    then show ?thesis by (simp add: mgmdLoop_done)
  next
    case le: True
    show ?thesis
    proof (cases "connect_error w n")
      case (Some err)
      then show ?thesis using le by (subst (1 2 3) mgmdLoop.simps) simp
    next
      case None
      show ?thesis
      proof (cases "mgmd_version w n")
        case (Inl err)
        then show ?thesis using le None by (subst (1 2 3) mgmdLoop.simps) simp
      next
        case (Inr v)
        show ?thesis
        proof (cases "v = wanted")
          case False
          then show ?thesis
            using mgmdLoop_outdated [OF le None Inr False] Inr le
            by (auto simp: stopCalls_visitOutdated)
        next
          case True
          have ih: "length (stopCalls (snd (mgmdLoop w wanted mgmdCount (n + 1)))) \<le> 1 \<and>
            (\<forall>ns \<in> set (stopCalls (snd (mgmdLoop w wanted mgmdCount (n + 1)))).
               fst (mgmdLoop w wanted mgmdCount (n + 1)) = requeueInSeconds 5 \<and>
               (\<exists>k. n + 1 \<le> k \<and> k \<le> mgmdCount \<and> ns = [k] \<and> mgmd_version w k \<noteq> Inr wanted))"
            using "1.IH" [OF le None Inr True] .
          have cur: "mgmd_version w n = Inr wanted" using Inr True by simp
          have sc: "stopCalls (visitCurrent n @ evs) = stopCalls evs" for evs
            by (simp add: visitCurrent_def)
          show ?thesis
            unfolding mgmdLoop_current [OF le None cur]
            using ih by (simp add: sc) (metis add_le_imp_le_right le_add_same_cancel1 order.trans zero_le_one zle_add1_eq_le)
        qed
      qed
    qed
  qed
qed


lemma mgmdLoop_connects:
  "\<exists>m. n - 1 \<le> m \<and> m \<le> max mgmdCount (n - 1) \<and>
     connectCalls (snd (mgmdLoop w wanted mgmdCount n)) = [n..m]"
proof (induction w wanted mgmdCount n rule: mgmdLoop.induct)
  case (1 w wanted mgmdCount n)
  show ?case
  proof (cases "n \<le> mgmdCount")
    case False
    then have "connectCalls (snd (mgmdLoop w wanted mgmdCount n)) = [n..n - 1]"
      by (simp add: mgmdLoop_done)
    then show ?thesis by (intro exI [of _ "n - 1"]) simp
  next
    case le: True
    have single: ?thesis if "connectCalls (snd (mgmdLoop w wanted mgmdCount n)) = [n]"
      using that le by (intro exI [of _ n]) simp
    show ?thesis
    proof (cases "connect_error w n")
      case (Some err)
      then show ?thesis using le by (intro single) (subst mgmdLoop.simps, simp)
    next
      case None
      show ?thesis
      proof (cases "mgmd_version w n")
        case (Inl err)
        then show ?thesis using le None by (intro single) (subst mgmdLoop.simps, simp)
      next
        case (Inr v)
        show ?thesis
        proof (cases "v = wanted")
          case False
          show ?thesis
            by (intro single)
              (simp add: mgmdLoop_outdated [OF le None Inr False] connectCalls_visitOutdated)
        next
          case True
          from "1.IH" [OF le None Inr True] obtain m where
            m: "n \<le> m" "m \<le> max mgmdCount n"
              "connectCalls (snd (mgmdLoop w wanted mgmdCount (n + 1))) = [n + 1..m]"
            by auto
          have cur: "mgmd_version w n = Inr wanted" using Inr True by simp
          have "connectCalls (snd (mgmdLoop w wanted mgmdCount n)) = n # [n + 1..m]"
            unfolding mgmdLoop_current [OF le None cur]
            by (simp add: visitCurrent_def m(3))
          also have "\<dots> = [n..m]" using m(1) by (simp add: upto_rec1)
          finally show ?thesis using m(1,2) le by (intro exI [of _ m]) simp
        qed
      qed
    qed
  qed
qed

lemma mgmdLoop_stop_independent:
  "fst (mgmdLoop (w\<lparr>stop_error := s\<rparr>) wanted mgmdCount n) = fst (mgmdLoop w wanted mgmdCount n)"
proof (induction w wanted mgmdCount n rule: mgmdLoop.induct)
  case (1 w wanted mgmdCount n)
  let ?w = "w\<lparr>stop_error := s\<rparr>"
  show ?case
  proof (cases "n \<le> mgmdCount")
    case False
    then show ?thesis by (simp add: mgmdLoop_done)
  next
    case le: True
    show ?thesis
    proof (cases "connect_error w n")
      case (Some err)
      then show ?thesis using le by (subst (1 2) mgmdLoop.simps) simp
    next
      case None
      then have None': "connect_error ?w n = None" by simp
      show ?thesis
      proof (cases "mgmd_version w n")
        case (Inl err)
        then show ?thesis using le None by (subst (1 2) mgmdLoop.simps) simp
      next
        case (Inr v)
        then have Inr': "mgmd_version ?w n = Inr v" by simp
        show ?thesis
        proof (cases "v = wanted")
          case False
          show ?thesis
            by (simp add: mgmdLoop_outdated [OF le None Inr False]
                mgmdLoop_outdated [OF le None' Inr' False])
        next
          case True
          have cur: "mgmd_version w n = Inr wanted" "mgmd_version ?w n = Inr wanted"
            using Inr True by simp_all
          show ?thesis
            using "1.IH" [OF le None Inr True]
            by (simp add: mgmdLoop_current [OF le None cur(1)] mgmdLoop_current [OF le None' cur(2)])
        qed
      qed
    qed
  qed
qed

lemma mgmd_count_range: "1 \<le> sint (GetManagementNodeCount nc) \<and> sint (GetManagementNodeCount nc) \<le> 2"
  by (simp add: GetManagementNodeCount_def)

lemma ensureMgmd_first_outdated:
  assumes "1 \<le> k" "k \<le> sint (GetManagementNodeCount nc)"
    and "\<forall>j. 1 \<le> j \<and> j < k \<longrightarrow> connect_error w j = None \<and> mgmd_version w j = Inr wanted"
    and "connect_error w k = None" "mgmd_version w k = Inr v" "v \<noteq> wanted"
  shows "ensureManagementServerConfigVersion w wanted nc =
    (requeueInSeconds 5, concat (map visitCurrent [1..k - 1]) @ visitOutdated w k)"
proof -
  have "k \<le> sint (GetManagementNodeCount nc) + 1" using assms(2) by simp
  from mgmdLoop_current_prefix [OF assms(3) assms(1) this]
  show ?thesis
    unfolding ensureManagementServerConfigVersion_def
    by (simp add: mgmdLoop_outdated [OF assms(2) assms(4) assms(5) assms(6)])
qed

text \<open>
  C2. In a tick of \<open>ensureManagementServerConfigVersion\<close> the management servers are
  reached in the order of their node ids from 1 on. A server whose config version is
  the wanted one is left (disconnect) for the next one; at the first server with
  another version, \<open>StopNodes\<close> is called for that one node id, and the tick ends with
  the verdict requeue in 5 seconds. So a tick calls \<open>StopNodes\<close> at most once, for one
  management node, and when all servers have the wanted version the verdict is continue
  with no stop.
\<close>

theorem ensureManagementServerConfigVersion_one_at_a_time:
  "length (stopCalls (snd (ensureManagementServerConfigVersion w wanted nc))) \<le> 1 \<and>
   (\<forall>ns \<in> set (stopCalls (snd (ensureManagementServerConfigVersion w wanted nc))).
      fst (ensureManagementServerConfigVersion w wanted nc) = requeueInSeconds 5 \<and>
      (\<exists>k. 1 \<le> k \<and> k \<le> sint (GetManagementNodeCount nc) \<and> ns = [k] \<and>
           mgmd_version w k \<noteq> Inr wanted)) \<and>
   (\<exists>m. m \<le> sint (GetManagementNodeCount nc) \<and>
      connectCalls (snd (ensureManagementServerConfigVersion w wanted nc)) = [1..m]) \<and>
   (1 \<le> k \<and> k \<le> sint (GetManagementNodeCount nc) \<and>
    (\<forall>j. 1 \<le> j \<and> j < k \<longrightarrow> connect_error w j = None \<and> mgmd_version w j = Inr wanted) \<and>
    connect_error w k = None \<and> mgmd_version w k = Inr v \<and> v \<noteq> wanted \<longrightarrow>
      ensureManagementServerConfigVersion w wanted nc =
        (requeueInSeconds 5, concat (map visitCurrent [1..k - 1]) @ visitOutdated w k) \<and>
      stopCalls (snd (ensureManagementServerConfigVersion w wanted nc)) = [[k]]) \<and>
   ((\<forall>j. 1 \<le> j \<and> j \<le> sint (GetManagementNodeCount nc) \<longrightarrow>
        connect_error w j = None \<and> mgmd_version w j = Inr wanted) \<longrightarrow>
      ensureManagementServerConfigVersion w wanted nc =
        (continueProcessing, concat (map visitCurrent [1..sint (GetManagementNodeCount nc)])))"
proof -
  let ?c = "sint (GetManagementNodeCount nc)"
  let ?R = "ensureManagementServerConfigVersion w wanted nc"
  have a: "length (stopCalls (snd ?R)) \<le> 1 \<and>
    (\<forall>ns \<in> set (stopCalls (snd ?R)). fst ?R = requeueInSeconds 5 \<and>
      (\<exists>k. 1 \<le> k \<and> k \<le> ?c \<and> ns = [k] \<and> mgmd_version w k \<noteq> Inr wanted))"
    unfolding ensureManagementServerConfigVersion_def by (rule mgmdLoop_stops)
  have b: "\<exists>m. m \<le> ?c \<and> connectCalls (snd ?R) = [1..m]"
    using mgmdLoop_connects [of 1 ?c w wanted] mgmd_count_range [of nc]
    unfolding ensureManagementServerConfigVersion_def by auto
  have c: "?R = (requeueInSeconds 5, concat (map visitCurrent [1..k - 1]) @ visitOutdated w k) \<and>
      stopCalls (snd ?R) = [[k]]"
    if "1 \<le> k" "k \<le> ?c"
      "\<forall>j. 1 \<le> j \<and> j < k \<longrightarrow> connect_error w j = None \<and> mgmd_version w j = Inr wanted"
      "connect_error w k = None" "mgmd_version w k = Inr v" "v \<noteq> wanted"
  proof -
    have sc: "stopCalls (concat (map visitCurrent xs)) = []" for xs
      by (induction xs) (simp_all add: visitCurrent_def)
    show ?thesis
      by (simp add: ensureMgmd_first_outdated [OF that] stopCalls_append sc stopCalls_visitOutdated)
  qed
  have d: "?R = (continueProcessing, concat (map visitCurrent [1..?c]))"
    if h: "\<forall>j. 1 \<le> j \<and> j \<le> ?c \<longrightarrow> connect_error w j = None \<and> mgmd_version w j = Inr wanted"
  proof -
    have h': "\<forall>j. 1 \<le> j \<and> j < ?c + 1 \<longrightarrow> connect_error w j = None \<and> mgmd_version w j = Inr wanted"
      using h by simp
    have "1 \<le> ?c + 1" using mgmd_count_range [of nc] by simp
    from mgmdLoop_current_prefix [OF h' this, of ?c]
    show ?thesis
      unfolding ensureManagementServerConfigVersion_def by (simp add: mgmdLoop_done)
  qed
  from a b c d show ?thesis by blast
qed


lemma ex_mgmd_count: "sint (GetManagementNodeCount (ex_cluster 2 2)) = 2"
  by (simp add: GetManagementNodeCount_def ex_cluster_def ex_spec_def)

theorem ensureManagementServerConfigVersion_one_at_a_time_witness:
  "mgmd_version (ex_world None) 1 = Inr 5 \<and> mgmd_version (ex_world None) 2 = Inr 4 \<and>
   ensureManagementServerConfigVersion (ex_world None) 5 (ex_cluster 2 2) =
     (requeueInSeconds 5,
      [Connect 1, GetMgmdConfigVersion 1, Disconnect 1,
       Connect 2, GetMgmdConfigVersion 2, StopNodes [2], Disconnect 2]) \<and>
   stopCalls (snd (ensureManagementServerConfigVersion (ex_world None) 5 (ex_cluster 2 2))) = [[2]] \<and>
   ensureManagementServerConfigVersion ((ex_world None)\<lparr>mgmd_version := \<lambda>n. Inr 5\<rparr>) 5 (ex_cluster 2 2) =
     (continueProcessing,
      [Connect 1, GetMgmdConfigVersion 1, Disconnect 1,
       Connect 2, GetMgmdConfigVersion 2, Disconnect 2])"
proof -
  have h1: "\<forall>j. 1 \<le> j \<and> j < 2 \<longrightarrow>
      connect_error (ex_world None) j = None \<and> mgmd_version (ex_world None) j = Inr 5"
    by (auto simp: ex_world_def)
  have h2: "connect_error (ex_world None) 2 = None" "mgmd_version (ex_world None) 2 = Inr 4"
    "mgmd_version (ex_world None) 1 = Inr 5" "(4 :: 32 word) \<noteq> 5"
    by (simp_all add: ex_world_def)
  have h3: "\<forall>j. 1 \<le> j \<and> j \<le> sint (GetManagementNodeCount (ex_cluster 2 2)) \<longrightarrow>
      connect_error ((ex_world None)\<lparr>mgmd_version := \<lambda>n. Inr 5\<rparr>) j = None \<and>
      mgmd_version ((ex_world None)\<lparr>mgmd_version := \<lambda>n. Inr 5\<rparr>) j = Inr 5"
    by (simp add: ex_world_def)
  have e: "concat (map visitCurrent [1..2 - 1]) @ visitOutdated (ex_world None) 2 =
      [Connect 1, GetMgmdConfigVersion 1, Disconnect 1,
       Connect 2, GetMgmdConfigVersion 2, StopNodes [2], Disconnect 2]"
    "concat (map visitCurrent [1..2]) =
      [Connect 1, GetMgmdConfigVersion 1, Disconnect 1,
       Connect 2, GetMgmdConfigVersion 2, Disconnect 2]"
    by (simp_all add: visitCurrent_def visitOutdated_def ex_world_def upto_rec1)
  show ?thesis
    using h1 h2 h3 e ex_mgmd_count
      ensureManagementServerConfigVersion_one_at_a_time [of "ex_world None" 5 "ex_cluster 2 2" 2 4]
      ensureManagementServerConfigVersion_one_at_a_time
        [of "(ex_world None)\<lparr>mgmd_version := \<lambda>n. Inr 5\<rparr>" 5 "ex_cluster 2 2" 2 4]
    by simp
qed

text \<open>
  C10. In \<open>ensureManagementServerConfigVersion\<close> the verdict of a tick does not depend on
  the answers of \<open>StopNodes\<close>: at the first management server with another config
  version than the wanted one the verdict is requeue in 5 seconds, also when
  \<open>StopNodes\<close> fails; the error is logged and the verdict does not carry it.
\<close>

theorem ensureManagementServerConfigVersion_stop_error_ignored:
  "fst (ensureManagementServerConfigVersion (w\<lparr>stop_error := s\<rparr>) wanted nc) =
     fst (ensureManagementServerConfigVersion w wanted nc) \<and>
   (1 \<le> k \<and> k \<le> sint (GetManagementNodeCount nc) \<and>
    (\<forall>j. 1 \<le> j \<and> j < k \<longrightarrow> connect_error w j = None \<and> mgmd_version w j = Inr wanted) \<and>
    connect_error w k = None \<and> mgmd_version w k = Inr v \<and> v \<noteq> wanted \<and>
    stop_error w [k] = Some err \<longrightarrow>
      fst (ensureManagementServerConfigVersion w wanted nc) = requeueInSeconds 5 \<and>
      StopNodes [k] \<in> set (snd (ensureManagementServerConfigVersion w wanted nc)) \<and>
      LogError (''Error stopping management node '' @ err)
        \<in> set (snd (ensureManagementServerConfigVersion w wanted nc)))"
proof -
  have a: "fst (ensureManagementServerConfigVersion (w\<lparr>stop_error := s\<rparr>) wanted nc) =
     fst (ensureManagementServerConfigVersion w wanted nc)"
    unfolding ensureManagementServerConfigVersion_def by (rule mgmdLoop_stop_independent)
  have b: "fst (ensureManagementServerConfigVersion w wanted nc) = requeueInSeconds 5 \<and>
      StopNodes [k] \<in> set (snd (ensureManagementServerConfigVersion w wanted nc)) \<and>
      LogError (''Error stopping management node '' @ err)
        \<in> set (snd (ensureManagementServerConfigVersion w wanted nc))"
    if "1 \<le> k" "k \<le> sint (GetManagementNodeCount nc)"
      "\<forall>j. 1 \<le> j \<and> j < k \<longrightarrow> connect_error w j = None \<and> mgmd_version w j = Inr wanted"
      "connect_error w k = None" "mgmd_version w k = Inr v" "v \<noteq> wanted"
      "stop_error w [k] = Some err"
    using that(7)
    by (simp add: ensureMgmd_first_outdated [OF that(1-6)] visitOutdated_def)
  from a b show ?thesis by blast
qed

theorem ensureManagementServerConfigVersion_stop_error_ignored_witness:
  "stop_error (ex_world (Some ''connection lost'')) [2] = Some ''connection lost'' \<and>
   mgmd_version (ex_world (Some ''connection lost'')) 2 = Inr 4 \<and>
   fst (ensureManagementServerConfigVersion (ex_world (Some ''connection lost'')) 5 (ex_cluster 2 2)) =
     requeueInSeconds 5 \<and>
   fst (ensureManagementServerConfigVersion
     ((ex_world (Some ''connection lost''))\<lparr>stop_error := \<lambda>ns. None\<rparr>) 5 (ex_cluster 2 2)) =
     requeueInSeconds 5 \<and>
   LogError ''Error stopping management node connection lost''
     \<in> set (snd (ensureManagementServerConfigVersion (ex_world (Some ''connection lost'')) 5
         (ex_cluster 2 2)))"
proof -
  let ?w = "ex_world (Some ''connection lost'')"
  have h1: "\<forall>j. 1 \<le> j \<and> j < 2 \<longrightarrow> connect_error ?w j = None \<and> mgmd_version ?w j = Inr 5"
    by (auto simp: ex_world_def)
  have h2: "connect_error ?w 2 = None" "mgmd_version ?w 2 = Inr 4" "(4 :: 32 word) \<noteq> 5"
    "stop_error ?w [2] = Some ''connection lost''"
    by (simp_all add: ex_world_def)
  show ?thesis
    using h1 h2 ex_mgmd_count
      ensureManagementServerConfigVersion_stop_error_ignored
        [where w = ?w and s = "\<lambda>ns. None" and wanted = 5 and nc = "ex_cluster 2 2" and k = 2
          and v = 4 and err = "''connection lost''"]
    by simp
qed

end
